theory Spec2Isabelle
  imports Main "HOL-Library.Sublist" "HOL-Library.AList"
begin

section \<open>JavaScript values and the lodash predicates\<close>

text \<open>
  The values a parsed job configuration is made of: the JSON fragment of JavaScript, plus
  \<open>undefined\<close>. An object is the list of its own enumerable properties in the order
  \<open>Object.keys\<close> enumerates them; its keys are pairwise distinct. Numbers are
  modelled as integers: no function below inspects the numeric value of a \<open>JNumber\<close>
  except \<open>isLength\<close>. The predicates \<open>isNil\<close>, \<open>isObject\<close>, \<open>isArrayLike\<close> and
  \<open>isEmpty\<close> are those of the lodash library, on these values.
\<close>

datatype jsvalue =
    JUndefined
  | JNull
  | JBool bool
  | JNumber int
  | JString string
  | JArray "jsvalue list"
  | JObject "(string \<times> jsvalue) list"

text \<open>lodash \<open>isNil\<close>: \<open>value == null\<close>.\<close>

definition isNil :: "jsvalue \<Rightarrow> bool" where
  "isNil v = (v = JUndefined \<or> v = JNull)"

text \<open>lodash \<open>isObject\<close>: the value is not null and its \<open>typeof\<close> is \<open>object\<close> or
  \<open>function\<close>.\<close>

fun isObject :: "jsvalue \<Rightarrow> bool" where
  "isObject (JArray xs) = True"
| "isObject (JObject kvs) = True"
| "isObject v = False"

text \<open>lodash \<open>isLength\<close>: an integer between 0 and \<open>Number.MAX_SAFE_INTEGER\<close>.\<close>

definition isLength :: "jsvalue \<Rightarrow> bool" where
  "isLength v = (case v of JNumber n \<Rightarrow> 0 \<le> n \<and> n \<le> 9007199254740991 | _ \<Rightarrow> False)"

text \<open>lodash \<open>isArrayLike\<close>: not nil, not a function, and \<open>value.length\<close> is a length.
  A string and an array have a length; a number and a boolean have none; a plain object
  has one when it carries a property of that name.\<close>

fun isArrayLike :: "jsvalue \<Rightarrow> bool" where
  "isArrayLike (JString s) = True"
| "isArrayLike (JArray xs) = True"
| "isArrayLike (JObject kvs) =
     (case map_of kvs ''length'' of Some l \<Rightarrow> isLength l | None \<Rightarrow> False)"
| "isArrayLike v = False"

text \<open>lodash \<open>isEmpty\<close>: nil is empty; a string or an array is empty when its length is
  0; any other value is empty when it has no own enumerable string-keyed property, which
  every number and boolean satisfies.\<close>

fun isEmpty :: "jsvalue \<Rightarrow> bool" where
  "isEmpty JUndefined = True"
| "isEmpty JNull = True"
| "isEmpty (JString s) = (s = [])"
| "isEmpty (JArray xs) = (xs = [])"
| "isEmpty (JObject kvs) = (kvs = [])"
| "isEmpty (JBool b) = True"
| "isEmpty (JNumber n) = True"

section \<open>Numbers\<close>

text \<open>
  The decimal digits of an integer, with a leading minus sign below zero. This is what
  a template literal and a property key make of a number that is an integer of magnitude
  up to \<open>2^53\<close>; every list index below is of that kind.
\<close>

definition digit_char :: "nat \<Rightarrow> char" where
  "digit_char d = ''0123456789'' ! d"

fun string_of_nat :: "nat \<Rightarrow> string" where
  "string_of_nat n =
     (if n < 10 then [digit_char n] else string_of_nat (n div 10) @ [digit_char (n mod 10)])"

declare string_of_nat.simps [simp del]

definition decimal_of_int :: "int \<Rightarrow> string" where
  "decimal_of_int i =
     (if i < 0 then CHR ''-'' # string_of_nat (nat (- i)) else string_of_nat (nat i))"

text \<open>
  A number of the source is an IEEE 754 double. The ones met here have integer values, and
  such a number is modelled by that integer. The integers a double can hold are those of
  the form \<open>q * 2^e\<close> with \<open>q < 2^53\<close>: all of them up to \<open>2^53\<close>, every second one up
  to \<open>2^54\<close>, and so on. \<open>roundToDouble\<close> is the rounding of an integer to the nearest of
  them, a tie going to the even \<open>q\<close>; \<open>excessBits\<close> is the exponent \<open>e\<close>. The sum
  \<open>index + 1\<close> of the source is the rounded sum.
\<close>

fun excessBits :: "nat \<Rightarrow> nat" where
  "excessBits m = (if m < 9007199254740992 then 0 else Suc (excessBits (m div 2)))"

declare excessBits.simps [simp del]

definition roundToDouble :: "int \<Rightarrow> int" where
  "roundToDouble x =
     (let m = nat \<bar>x\<bar>;
          e = excessBits m;
          q = m div 2 ^ e;
          r = m mod 2 ^ e;
          q' = (if 2 ^ e < 2 * r \<or> (2 * r = 2 ^ e \<and> odd q) then q + 1 else q)
      in sgn x * int (q' * 2 ^ e))"

definition jsIncrement :: "int \<Rightarrow> int" where
  "jsIncrement index = roundToDouble (index + 1)"

text \<open>
  \<open>Number::toString\<close> on an integer-valued number. Up to magnitude \<open>2^53\<close> it prints
  the decimal digits of the integer. Beyond, it prints the shortest digits that read back
  as the same double, followed by zeros, and in exponent notation from \<open>10^21\<close> on; that
  part is the parameter \<open>beyondSafe\<close>.
\<close>

definition numberToString :: "(int \<Rightarrow> string) \<Rightarrow> int \<Rightarrow> string" where
  "numberToString beyondSafe n =
     (if \<bar>n\<bar> \<le> 9007199254740992 then decimal_of_int n else beyondSafe n)"

text \<open>
  The value of a string of decimal digits, and the array indices among the property keys:
  the strings that are the decimal digits of an integer from 0 to \<open>2^32 - 2\<close>.
\<close>

definition digit_value :: "char \<Rightarrow> nat" where
  "digit_value ch = of_char ch - 48"

definition nat_of_string :: "string \<Rightarrow> nat" where
  "nat_of_string s = foldl (\<lambda>acc ch. 10 * acc + digit_value ch) 0 s"

definition isArrayIndex :: "string \<Rightarrow> bool" where
  "isArrayIndex k = (string_of_nat (nat_of_string k) = k \<and> nat_of_string k \<le> 4294967294)"

text \<open>
  The order in which \<open>Object.keys\<close> enumerates an object whose properties were created in
  the order given: the array indices in ascending numeric order, then the other keys in
  the order of their creation.
\<close>

definition ownKeysOrder :: "(string \<times> 'a) list \<Rightarrow> (string \<times> 'a) list" where
  "ownKeysOrder inserted =
     sort_key (\<lambda>(k, v). nat_of_string k) (filter (\<lambda>(k, v). isArrayIndex k) inserted)
     @ filter (\<lambda>(k, v). \<not> isArrayIndex k) inserted"

section \<open>removeEmptyProperties\<close>

text \<open>
  \<open>{ ...obj }\<close>: the own enumerable properties of the argument, in key order. An array
  spreads to its elements under their indices.
\<close>

fun spreadProperties :: "jsvalue \<Rightarrow> (string \<times> jsvalue) list" where
  "spreadProperties (JObject kvs) = kvs"
| "spreadProperties (JArray xs) = zip (map string_of_nat [0..<length xs]) xs"
| "spreadProperties v = []"

text \<open>The body of the \<open>forEach\<close> callback: does the key stay in \<open>newObj\<close>?\<close>

definition keepsProperty :: "jsvalue \<Rightarrow> bool" where
  "keepsProperty onCheckingElement =
     (if \<not> isEmpty onCheckingElement then True
      else if \<not> isObject onCheckingElement \<and> \<not> isArrayLike onCheckingElement
              \<and> \<not> isNil onCheckingElement then True
      else False)"

definition removeEmptyProperties :: "jsvalue \<Rightarrow> jsvalue" where
  "removeEmptyProperties obj =
     (if \<not> isObject obj then JUndefined
      else JObject (filter (\<lambda>(key, v). keepsProperty v) (spreadProperties obj)))"

text \<open>
  The words of the specification. A container is an array, an object or a string (a
  string is array-like for lodash); the non-container, non-nil primitives are the numbers
  and the booleans.
\<close>

definition emptyContainer :: "jsvalue \<Rightarrow> bool" where
  "emptyContainer v = (v = JArray [] \<or> v = JObject [] \<or> v = JString [])"

definition emptyLike :: "jsvalue \<Rightarrow> bool" where
  "emptyLike v = (emptyContainer v \<or> v = JNull \<or> v = JUndefined)"

fun nonContainerPrimitive :: "jsvalue \<Rightarrow> bool" where
  "nonContainerPrimitive (JBool b) = True"
| "nonContainerPrimitive (JNumber n) = True"
| "nonContainerPrimitive v = False"

definition dropsKey :: "jsvalue \<Rightarrow> bool" where
  "dropsKey v = (emptyLike v \<and> \<not> nonContainerPrimitive v)"

section \<open>Path helpers\<close>

text \<open>
  \<open>String.prototype.indexOf\<close> from position 0 and \<open>String.prototype.replace\<close> with a
  string pattern: the first position at which the pattern matches, if any, and the text
  with that one match replaced. The replacement used below is the empty string, which
  holds no \<open>$\<close> pattern.
\<close>

definition stringIndexOf :: "string \<Rightarrow> string \<Rightarrow> nat option" where
  "stringIndexOf s searchString =
     find (\<lambda>pos. take (length searchString) (drop pos s) = searchString) [0..<Suc (length s)]"

definition stringReplace :: "string \<Rightarrow> string \<Rightarrow> string \<Rightarrow> string" where
  "stringReplace s searchValue replaceValue =
     (case stringIndexOf s searchValue of
        None \<Rightarrow> s
      | Some pos \<Rightarrow> take pos s @ replaceValue @ drop (pos + length searchValue) s)"

definition removePathPrefix :: "string \<Rightarrow> string \<Rightarrow> string" where
  "removePathPrefix path pre = stringReplace path pre []"

definition addPathPrefix :: "string \<Rightarrow> string \<Rightarrow> string" where
  "addPathPrefix path pre = pre @ path"

section \<open>createUniqueName\<close>

definition uniqueNameCandidate :: "(int \<Rightarrow> string) \<Rightarrow> string \<Rightarrow> int \<Rightarrow> string" where
  "uniqueNameCandidate beyondSafe namePrefix index =
     namePrefix @ ''_'' @ numberToString beyondSafe index"

text \<open>
  The state of the loop is \<open>index\<close>; \<open>name\<close> is the candidate built from the value
  \<open>index\<close> had before its increment. \<open>usedNames.find\<close> returns the matching element,
  a candidate name, which is never the empty string, so the loop goes on exactly when the
  candidate is among the used names. The function is called with the value of \<open>index\<close>
  before \<open>index++\<close> and returns the pair \<open>[name, index]\<close>. The loop need not end:
  \<open>None\<close> is a call that never returns.
\<close>

partial_function (option) createUniqueNameFrom ::
  "(int \<Rightarrow> string) \<Rightarrow> string list \<Rightarrow> string \<Rightarrow> int \<Rightarrow> (string \<times> int) option" where
  "createUniqueNameFrom beyondSafe usedNames namePrefix index =
     (let name = uniqueNameCandidate beyondSafe namePrefix index in
      if find (\<lambda>usedName. usedName = name) usedNames \<noteq> None
      then createUniqueNameFrom beyondSafe usedNames namePrefix (jsIncrement index)
      else Some (name, jsIncrement index))"

definition createUniqueName ::
  "(int \<Rightarrow> string) \<Rightarrow> string list \<Rightarrow> string \<Rightarrow> int \<Rightarrow> (string \<times> int) option" where
  "createUniqueName beyondSafe usedNames namePrefix startindex =
     createUniqueNameFrom beyondSafe usedNames namePrefix startindex"

section \<open>The job configuration\<close>

text \<open>
  The sentinel strings come from the module \<open>./constants\<close>; they are parameters of
  every function that reads them.
\<close>

record constants =
  CUSTOM_STORAGE_START :: string
  CUSTOM_STORAGE_END :: string
  TEAMWISE_DATA_CMD_START :: string
  TEAMWISE_DATA_CMD_END :: string
  TENSORBOARD_CMD_START :: string
  TENSORBOARD_CMD_END :: string
  AUTO_GENERATE_NOTIFY :: string

definition HIDE_SECRET :: string where
  "HIDE_SECRET = ''******''"

text \<open>
  A field that the source reads behind a guard somewhere (\<open>x || []\<close>, \<open>a && a.b\<close>) is
  optional; \<open>taskRoles\<close> is one of them, and the functions that enumerate it without a
  guard raise a \<open>TypeError\<close> when it is missing. \<open>resourcePerInstance\<close> is read
  without a guard wherever it is read, and is a field every task role has. A mapping is
  the list of its entries in \<open>Object.keys\<close> order (see \<open>ownKeysOrder\<close>), with pairwise
  distinct keys; the functions below visit the entries by position, which is what a visit
  by key does on such a list. A port map
  is such a list too: \<open>AList.update\<close> is the assignment \<open>ports[key] = n\<close> and
  \<open>AList.delete\<close> is \<open>delete ports[key]\<close>; a count is a number, never nil.
\<close>

record resources =
  ports :: "(string \<times> int) list option"

record taskRoleSpec =
  commands :: "string list option"
  resourcePerInstance :: resources

record tensorBoardExtras =
  randomStr :: string
  logDirectories :: "(string \<times> string) list"

record extrasSpec =
  tensorBoard :: "tensorBoardExtras option"

datatype secretsValue =
    SecretsString string
  | SecretsObject "(string \<times> jsvalue) list"

record jobConfig =
  name :: "string option"
  parameters :: "(string \<times> jsvalue) list option"
  taskRoles :: "(string \<times> taskRoleSpec) list option"
  deployments :: "jsvalue list option"
  prerequisites :: "jsvalue list option"
  secrets :: "secretsValue option"
  extras :: "extrasSpec option"

datatype error = TypeError

section \<open>Removing a tagged section\<close>

text \<open>
  \<open>Array.prototype.indexOf(searchElement, fromIndex)\<close>: the first index at or after
  \<open>fromIndex\<close> that holds the element, \<open>-1\<close> when there is none; a negative
  \<open>fromIndex\<close> counts from the end of the array.
\<close>

definition indexOf :: "'a list \<Rightarrow> 'a \<Rightarrow> int \<Rightarrow> int" where
  "indexOf xs searchElement fromIndex =
     (let k = (if 0 \<le> fromIndex then nat fromIndex else nat (max (int (length xs) + fromIndex) 0))
      in case find (\<lambda>i. xs ! i = searchElement) [k..<length xs] of
           Some i \<Rightarrow> int i
         | None \<Rightarrow> - 1)"

definition removeTagSection :: "string list \<Rightarrow> string \<Rightarrow> string \<Rightarrow> string list" where
  "removeTagSection cmds beginTag endTag =
     (let beginTagIndex = indexOf cmds beginTag 0;
          endTagIndex = indexOf cmds endTag (beginTagIndex + 1)
      in if beginTagIndex \<noteq> - 1 \<and> endTagIndex \<noteq> - 1
         then map snd (filter (\<lambda>(index, _). int index < beginTagIndex \<or> int index > endTagIndex)
                         (enumerate 0 cmds))
         else cmds)"

section \<open>Stripping the generated code\<close>

definition tensorBoardPortName :: "string \<Rightarrow> string" where
  "tensorBoardPortName rs = ''tensorBoardPort_'' @ rs"

text \<open>The variable \<open>tensorBoardPort\<close> of the strip pass; \<open>None\<close> is \<open>undefined\<close>.\<close>

definition declaredTensorBoardPort :: "jobConfig \<Rightarrow> string option" where
  "declaredTensorBoardPort protocol =
     (case extras protocol of
        None \<Rightarrow> None
      | Some e \<Rightarrow>
          (case tensorBoard e of
             None \<Rightarrow> None
           | Some tb \<Rightarrow> Some (tensorBoardPortName (randomStr tb))))"

text \<open>The body of the \<open>forEach\<close> callback of the strip pass, on one task role.\<close>

definition stripTaskRole :: "constants \<Rightarrow> string option \<Rightarrow> taskRoleSpec \<Rightarrow> taskRoleSpec" where
  "stripTaskRole c tensorBoardPort taskRole =
     (let cmds0 = (case commands taskRole of Some cs \<Rightarrow> cs | None \<Rightarrow> []) in
      if cmds0 = [] then taskRole
      else
        let cmds1 = removeTagSection cmds0 (CUSTOM_STORAGE_START c) (CUSTOM_STORAGE_END c);
            cmds2 = removeTagSection cmds1 (TEAMWISE_DATA_CMD_START c) (TEAMWISE_DATA_CMD_END c);
            cmds3 = removeTagSection cmds2 (TENSORBOARD_CMD_START c) (TENSORBOARD_CMD_END c);
            taskRole1 =
              (case tensorBoardPort of
                 None \<Rightarrow> taskRole
               | Some port \<Rightarrow>
                   (case ports (resourcePerInstance taskRole) of
                      None \<Rightarrow> taskRole
                    | Some ps \<Rightarrow>
                        if map_of ps port \<noteq> None
                        then taskRole\<lparr>resourcePerInstance :=
                               (resourcePerInstance taskRole)\<lparr>ports := Some (AList.delete port ps)\<rparr>\<rparr>
                        else taskRole))
        in taskRole1\<lparr>commands := Some cmds3\<rparr>)"

text \<open>
  \<open>Object.keys(protocol.taskRoles)\<close> raises a \<open>TypeError\<close> on a missing mapping, before
  any role is visited.
\<close>

definition removeAutoGeneratedCodeFromProtocolTaskRoles :: "constants \<Rightarrow> jobConfig \<Rightarrow> error + jobConfig" where
  "removeAutoGeneratedCodeFromProtocolTaskRoles c protocol =
     (case taskRoles protocol of
        None \<Rightarrow> Inl TypeError
      | Some roles \<Rightarrow>
          Inr (protocol\<lparr>taskRoles :=
                 Some (map (\<lambda>(taskRoleKey, taskRole).
                              (taskRoleKey, stripTaskRole c (declaredTensorBoardPort protocol) taskRole))
                           roles)\<rparr>))"

section \<open>Injecting the TensorBoard commands\<close>

text \<open>\<open>Array.prototype.join\<close> on an array of strings.\<close>

fun join :: "string \<Rightarrow> string list \<Rightarrow> string" where
  "join sep [] = []"
| "join sep [x] = x"
| "join sep (x # y # ys) = x @ sep @ join sep (y # ys)"

definition tensorBoardCommands :: "constants \<Rightarrow> tensorBoardExtras \<Rightarrow> string list" where
  "tensorBoardCommands c tensorBoardExtras =
     (let tensorBoardPort = tensorBoardPortName (randomStr tensorBoardExtras);
          portList = ''--port=$PAI_CONTAINER_HOST_'' @ tensorBoardPort @ ''_PORT_LIST'';
          logPathList = map (\<lambda>(key, dir). key @ '':'' @ dir) (logDirectories tensorBoardExtras);
          logPath = join '','' logPathList
      in [TENSORBOARD_CMD_START c,
          AUTO_GENERATE_NOTIFY c,
          ''(tensorboard --logdir='' @ logPath @ '' '' @ portList @ '' &)'',
          TENSORBOARD_CMD_END c])"

text \<open>
  What the injection does to the first task role: the block goes in front of its commands
  and the port is registered with count 1 (an existing key keeps its place, a new one is
  appended).
\<close>

definition injectTensorBoard :: "constants \<Rightarrow> tensorBoardExtras \<Rightarrow> taskRoleSpec \<Rightarrow> taskRoleSpec" where
  "injectTensorBoard c tensorBoardExtras taskRole =
     (let cmds = tensorBoardCommands c tensorBoardExtras
                   @ (case commands taskRole of Some cs \<Rightarrow> cs | None \<Rightarrow> []);
          ps = (case ports (resourcePerInstance taskRole) of Some ps \<Rightarrow> ps | None \<Rightarrow> [])
      in taskRole\<lparr>commands := Some cmds,
                  resourcePerInstance := (resourcePerInstance taskRole)
                    \<lparr>ports := Some (AList.update (tensorBoardPortName (randomStr tensorBoardExtras)) 1 ps)\<rparr>\<rparr>)"

text \<open>
  \<open>Object.keys(protocol.taskRoles)\<close> raises a \<open>TypeError\<close> on a missing mapping. On an
  empty one \<open>Object.keys(protocol.taskRoles)[0]\<close> is \<open>undefined\<close>, and reading
  \<open>commands\<close> of the missing role raises a \<open>TypeError\<close>.
\<close>

definition addTensorBoardCommandsToProtocolTaskRoles :: "constants \<Rightarrow> jobConfig \<Rightarrow> error + jobConfig" where
  "addTensorBoardCommandsToProtocolTaskRoles c protocol =
     (case extras protocol of
        None \<Rightarrow> Inr protocol
      | Some e \<Rightarrow>
          (case tensorBoard e of
             None \<Rightarrow> Inr protocol
           | Some tensorBoardExtras \<Rightarrow>
               (case taskRoles protocol of
                  None \<Rightarrow> Inl TypeError
                | Some [] \<Rightarrow> Inl TypeError
                | Some ((firstTaskRole, taskRole) # others) \<Rightarrow>
                    Inr (protocol\<lparr>taskRoles :=
                           Some ((firstTaskRole, injectTensorBoard c tensorBoardExtras taskRole)
                                 # others)\<rparr>))))"

section \<open>Decomposing a job configuration\<close>

text \<open>
  The classes \<open>JobBasicInfo\<close> and \<open>JobTaskRole\<close> live in \<open>../models\<close>. Of a
  \<open>JobBasicInfo\<close> the functions here read and write the field \<open>virtualCluster\<close> only; its
  other fields are the extension of the record. The two \<open>fromProtocol\<close> constructors are
  parameters, taken to be functions of their arguments.
\<close>

record JobBasicInfo =
  virtualCluster :: string

record jobContext =
  vcNames :: "string list"

definition populateComponents :: "'a JobBasicInfo_scheme \<Rightarrow> jobContext \<Rightarrow> 'a JobBasicInfo_scheme" where
  "populateComponents jobInformation ctx =
     (let vc = virtualCluster jobInformation in
      if vcNames ctx = [] \<or> find (\<lambda>vcName. vcName = vc) (vcNames ctx) = None
      then jobInformation\<lparr>virtualCluster := ''default''\<rparr>
      else jobInformation)"

text \<open>An object \<open>{ key, value }\<close>.\<close>

record keyValue =
  key :: string
  val :: jsvalue

text \<open>
  \<open>Object.entries\<close> of the value \<open>secrets\<close> holds: the entries of an object, and the
  characters of a string under their indices.
\<close>

fun secretsEntries :: "secretsValue \<Rightarrow> (string \<times> jsvalue) list" where
  "secretsEntries (SecretsObject kvs) = kvs"
| "secretsEntries (SecretsString s) = zip (map string_of_nat [0..<length s]) (map (\<lambda>ch. JString [ch]) s)"

definition SECRETS_WARNING :: string where
  "SECRETS_WARNING = ''WARNING: The secrets in the imported job config have been removed. You need to fill in the missing values manually or the job may not work as you expected.''"

text \<open>The array the function returns.\<close>

record ('i, 'r) jobComponents =
  updatedJobInformation :: 'i
  updatedTaskRoles :: "'r list"
  updatedParameters :: "keyValue list"
  updatedSecrets :: "keyValue list"
  updatedExtras :: extrasSpec

text \<open>
  What a call leaves behind: the document the caller passed, as it is after the call
  (\<open>None\<close> for a null or undefined argument), the value returned (\<open>None\<close> for
  \<open>undefined\<close>, and when nothing is returned), the messages shown with \<open>alert\<close>, in
  order, and the exception the call ended with, if any.

  The strip pass runs on the argument itself, so every later read sees the stripped
  document; when the strip pass raises, the call ends there, with the document as it was.
  \<open>jobConfig.secrets || {}\<close> replaces a missing value and the empty string.
\<close>

record ('i, 'r) decomposeOutcome =
  documentAfter :: "jobConfig option"
  returned :: "('i, 'r) jobComponents option"
  alerts :: "string list"
  thrown :: "error option"

definition getJobComponentsFromConfig ::
  "constants \<Rightarrow> (jobConfig \<Rightarrow> 'a JobBasicInfo_scheme)
     \<Rightarrow> (string \<Rightarrow> taskRoleSpec \<Rightarrow> jsvalue list \<Rightarrow> jsvalue list \<Rightarrow> secretsValue \<Rightarrow> 'r)
     \<Rightarrow> jobConfig option \<Rightarrow> jobContext \<Rightarrow> ('a JobBasicInfo_scheme, 'r) decomposeOutcome" where
  "getJobComponentsFromConfig c jobBasicInfoFromProtocol jobTaskRoleFromProtocol jobConfigArg ctx =
     (case jobConfigArg of
        None \<Rightarrow> \<lparr>documentAfter = None, returned = None, alerts = [], thrown = None\<rparr>
      | Some jobConfig0 \<Rightarrow>
         (case removeAutoGeneratedCodeFromProtocolTaskRoles c jobConfig0 of
            Inl err \<Rightarrow>
              \<lparr>documentAfter = Some jobConfig0, returned = None, alerts = [], thrown = Some err\<rparr>
          | Inr jobConfig \<Rightarrow>
          let params = (case parameters jobConfig of Some ps \<Rightarrow> ps | None \<Rightarrow> []);
              roles = (case taskRoles jobConfig of Some rs \<Rightarrow> rs | None \<Rightarrow> []);
              deploys = (case deployments jobConfig of Some ds \<Rightarrow> ds | None \<Rightarrow> []);
              prereqs = (case prerequisites jobConfig of Some ps \<Rightarrow> ps | None \<Rightarrow> []);
              secs = (case secrets jobConfig of
                        None \<Rightarrow> SecretsObject []
                      | Some (SecretsString s) \<Rightarrow> if s = [] then SecretsObject [] else SecretsString s
                      | Some (SecretsObject kvs) \<Rightarrow> SecretsObject kvs);
              exts = (case extras jobConfig of Some e \<Rightarrow> e | None \<Rightarrow> \<lparr>tensorBoard = None\<rparr>);
              jobInformation = jobBasicInfoFromProtocol jobConfig;
              newParameters = map (\<lambda>(k, v). \<lparr>key = k, val = v\<rparr>) params;
              redacted = (secs = SecretsString HIDE_SECRET);
              newSecrets = (if redacted then []
                            else map (\<lambda>(k, v). \<lparr>key = k, val = v\<rparr>) (secretsEntries secs));
              newTaskRoles = map (\<lambda>(roleName, role).
                                    jobTaskRoleFromProtocol roleName role deploys prereqs secs) roles
          in \<lparr>documentAfter = Some jobConfig,
              returned = Some \<lparr>updatedJobInformation = populateComponents jobInformation ctx,
                               updatedTaskRoles = newTaskRoles,
                               updatedParameters = newParameters,
                               updatedSecrets = newSecrets,
                               updatedExtras = exts\<rparr>,
              alerts = (if redacted then [SECRETS_WARNING] else []),
              thrown = None\<rparr>))"

section \<open>Notions used in the statements\<close>

text \<open>
  A command list holds a well-formed section for a pair of sentinels when the end
  sentinel occurs strictly after the first occurrence of the begin sentinel.
\<close>

definition sectionPresent :: "string list \<Rightarrow> string \<Rightarrow> string \<Rightarrow> bool" where
  "sectionPresent cmds beginTag endTag = (endTag \<in> set (tl (dropWhile (\<lambda>x. x \<noteq> beginTag) cmds)))"

definition generatedSectionPresent :: "constants \<Rightarrow> string list \<Rightarrow> bool" where
  "generatedSectionPresent c cmds =
     (sectionPresent cmds (CUSTOM_STORAGE_START c) (CUSTOM_STORAGE_END c)
      \<or> sectionPresent cmds (TEAMWISE_DATA_CMD_START c) (TEAMWISE_DATA_CMD_END c)
      \<or> sectionPresent cmds (TENSORBOARD_CMD_START c) (TENSORBOARD_CMD_END c))"

text \<open>The port map of the role holds the port identifier the document declares.\<close>

definition portDeclared :: "string option \<Rightarrow> taskRoleSpec \<Rightarrow> bool" where
  "portDeclared tensorBoardPort taskRole =
     (case tensorBoardPort of
        None \<Rightarrow> False
      | Some port \<Rightarrow>
          (case ports (resourcePerInstance taskRole) of
             None \<Rightarrow> False
           | Some ps \<Rightarrow> map_of ps port \<noteq> None))"

text \<open>A role the strip pass has nothing to take from.\<close>

definition nothingToStrip :: "constants \<Rightarrow> string option \<Rightarrow> taskRoleSpec \<Rightarrow> bool" where
  "nothingToStrip c tensorBoardPort taskRole =
     (case commands taskRole of
        None \<Rightarrow> True
      | Some cmds \<Rightarrow>
          cmds = [] \<or> (\<not> generatedSectionPresent c cmds \<and> \<not> portDeclared tensorBoardPort taskRole))"

text \<open>The injection followed by the strip pass, on the document the injection left.\<close>

definition injectThenStrip :: "constants \<Rightarrow> jobConfig \<Rightarrow> error + jobConfig" where
  "injectThenStrip c d =
     (case addTensorBoardCommandsToProtocolTaskRoles c d of
        Inl err \<Rightarrow> Inl err
      | Inr d1 \<Rightarrow> removeAutoGeneratedCodeFromProtocolTaskRoles c d1)"

text \<open>
  What the sentinel constants must satisfy for the generated block to be found again: no
  line of the block is the begin sentinel of a storage section, and neither of its two
  inner lines is the TensorBoard end sentinel.
\<close>

definition blockDelimited :: "constants \<Rightarrow> tensorBoardExtras \<Rightarrow> bool" where
  "blockDelimited c tb =
     (let block = tensorBoardCommands c tb in
      CUSTOM_STORAGE_START c \<notin> set block
      \<and> TEAMWISE_DATA_CMD_START c \<notin> set block
      \<and> TENSORBOARD_CMD_END c \<notin> set (butlast (tl block)))"

text \<open>The role with a missing command list or port map replaced by the empty one.\<close>

definition presentFields :: "taskRoleSpec \<Rightarrow> taskRoleSpec" where
  "presentFields taskRole =
     taskRole\<lparr>commands := Some (case commands taskRole of Some cs \<Rightarrow> cs | None \<Rightarrow> []),
              resourcePerInstance := (resourcePerInstance taskRole)
                \<lparr>ports := Some (case ports (resourcePerInstance taskRole) of Some ps \<Rightarrow> ps | None \<Rightarrow> [])\<rparr>\<rparr>"

section \<open>Example inputs\<close>

definition exampleConstants :: constants where
  "exampleConstants =
     \<lparr>CUSTOM_STORAGE_START = ''#CUSTOM_STORAGE_START'',
      CUSTOM_STORAGE_END = ''#CUSTOM_STORAGE_END'',
      TEAMWISE_DATA_CMD_START = ''#TEAMWISE_STORAGE_START'',
      TEAMWISE_DATA_CMD_END = ''#TEAMWISE_STORAGE_END'',
      TENSORBOARD_CMD_START = ''#TENSORBOARD_CMD_START'',
      TENSORBOARD_CMD_END = ''#TENSORBOARD_CMD_END'',
      AUTO_GENERATE_NOTIFY = ''#Auto generated code, please do not modify''\<rparr>"

definition exampleTensorBoard :: tensorBoardExtras where
  "exampleTensorBoard = \<lparr>randomStr = ''k3x9q2ab'', logDirectories = [(''default'', ''/mnt/tensorboard'')]\<rparr>"

text \<open>A job with nothing generated in it.\<close>

definition exampleJob :: jobConfig where
  "exampleJob =
     \<lparr>name = Some ''mnist'',
      parameters = Some [(''epochs'', JNumber 3)],
      taskRoles = Some
        [(''worker'', \<lparr>commands = Some [''python train.py''],
                       resourcePerInstance = \<lparr>ports = Some [(''ssh'', 1)]\<rparr>\<rparr>),
         (''ps'', \<lparr>commands = None, resourcePerInstance = \<lparr>ports = None\<rparr>\<rparr>)],
      deployments = None,
      prerequisites = None,
      secrets = Some (SecretsObject [(''token'', JString ''t0'')]),
      extras = Some \<lparr>tensorBoard = Some exampleTensorBoard\<rparr>\<rparr>"

text \<open>
  A job whose first role has neither commands nor ports yet, and whose second role
  carries a custom-storage section and a port under the TensorBoard identifier; its
  secrets are redacted.
\<close>

definition generatedJob :: jobConfig where
  "generatedJob =
     \<lparr>name = Some ''mnist'',
      parameters = None,
      taskRoles = Some
        [(''worker'', \<lparr>commands = None, resourcePerInstance = \<lparr>ports = None\<rparr>\<rparr>),
         (''ps'', \<lparr>commands = Some [''#CUSTOM_STORAGE_START'', ''mkdir /data'', ''#CUSTOM_STORAGE_END'',
                                    ''python ps.py''],
                   resourcePerInstance = \<lparr>ports = Some [(''tensorBoardPort_k3x9q2ab'', 5)]\<rparr>\<rparr>)],
      deployments = None,
      prerequisites = None,
      secrets = Some (SecretsString ''******''),
      extras = Some \<lparr>tensorBoard = Some exampleTensorBoard\<rparr>\<rparr>"


text \<open>A job with two log directories.\<close>

definition twoLogsJob :: jobConfig where
  "twoLogsJob =
     \<lparr>name = Some ''mnist'',
      parameters = None,
      taskRoles = Some
        (ownKeysOrder
          [(''worker'', \<lparr>commands = Some [''python train.py''],
                         resourcePerInstance = \<lparr>ports = Some [(''ssh'', 1)]\<rparr>\<rparr>),
           (''ps'', \<lparr>commands = None, resourcePerInstance = \<lparr>ports = None\<rparr>\<rparr>)]),
      deployments = None,
      prerequisites = None,
      secrets = None,
      extras = Some \<lparr>tensorBoard = Some \<lparr>randomStr = ''k3x9q2ab'',
                                              logDirectories = [(''default'', ''/mnt/tensorboard''),
                                                                (''extra'', ''/mnt/extra'')]\<rparr>\<rparr>\<rparr>"

text \<open>
  A job whose mapping of task roles was built by adding the role \<open>worker\<close> first and the
  role \<open>1\<close> second.
\<close>

definition numericRoleJob :: jobConfig where
  "numericRoleJob =
     \<lparr>name = Some ''mnist'',
      parameters = None,
      taskRoles = Some
        (ownKeysOrder
          [(''worker'', \<lparr>commands = Some [''python train.py''],
                         resourcePerInstance = \<lparr>ports = Some []\<rparr>\<rparr>),
           (''1'', \<lparr>commands = Some [''python ps.py''],
                    resourcePerInstance = \<lparr>ports = Some []\<rparr>\<rparr>)]),
      deployments = None,
      prerequisites = None,
      secrets = None,
      extras = Some \<lparr>tensorBoard = Some exampleTensorBoard\<rparr>\<rparr>"

text \<open>A job with redacted secrets and no \<open>taskRoles\<close> field.\<close>

definition redactedJobWithoutRoles :: jobConfig where
  "redactedJobWithoutRoles =
     \<lparr>name = Some ''mnist'',
      parameters = None,
      taskRoles = None,
      deployments = None,
      prerequisites = None,
      secrets = Some (SecretsString ''******''),
      extras = None\<rparr>"

lemmas example_defs = exampleConstants_def exampleTensorBoard_def exampleJob_def
  sectionPresent_def generatedSectionPresent_def portDeclared_def nothingToStrip_def
  blockDelimited_def tensorBoardCommands_def tensorBoardPortName_def declaredTensorBoardPort_def Let_def

section \<open>Auxiliary facts\<close>

subsection \<open>Pruning\<close>

lemma keepsProperty_iff: "keepsProperty v = (\<not> dropsKey v)"
  by (cases v) (auto simp: keepsProperty_def dropsKey_def emptyLike_def emptyContainer_def isNil_def
      split: option.splits)

lemma find_eq_None_iff: "(find (\<lambda>y. y = x) ys = None) = (x \<notin> set ys)"
  by (induction ys) auto

subsection \<open>Decimal strings, rounding and the loop of createUniqueName\<close>

lemma string_of_nat_digit: "n < 10 \<Longrightarrow> string_of_nat n = [digit_char n]"
  by (simp add: string_of_nat.simps[of n])

lemma string_of_nat_step:
  "10 \<le> n \<Longrightarrow> string_of_nat n = string_of_nat (n div 10) @ [digit_char (n mod 10)]"
  by (simp add: string_of_nat.simps[of n])

lemma digit_cases: "d < 10 \<Longrightarrow> d \<in> {0, 1, 2, 3, 4, 5, 6, 7, 8, 9::nat}"
  by auto

lemma digit_value_digit_char: "d < 10 \<Longrightarrow> digit_value (digit_char d) = d"
  using digit_cases[of d] by (auto simp: digit_value_def digit_char_def)

lemma digit_char_not_minus: "d < 10 \<Longrightarrow> digit_char d \<noteq> CHR ''-''"
  using digit_cases[of d] by (auto simp: digit_char_def)

lemma nat_of_string_of_nat: "nat_of_string (string_of_nat n) = n"
proof (induction n rule: string_of_nat.induct)
  case (1 n)
  show ?case
  proof (cases "n < 10")
    case True
    then show ?thesis
      by (simp add: string_of_nat_digit nat_of_string_def digit_value_digit_char)
  next
    case False
    with 1 have "nat_of_string (string_of_nat (n div 10)) = n div 10" by simp
    with False show ?thesis
      by (simp add: string_of_nat_step nat_of_string_def digit_value_digit_char)
  qed
qed

lemma string_of_nat_inj: "string_of_nat m = string_of_nat n \<Longrightarrow> m = n"
  by (metis nat_of_string_of_nat)

lemma string_of_nat_hd: "\<exists>ch rest. string_of_nat n = ch # rest \<and> ch \<noteq> CHR ''-''"
proof (induction n rule: string_of_nat.induct)
  case (1 n)
  show ?case
  proof (cases "n < 10")
    case True
    then show ?thesis
      by (simp add: string_of_nat_digit digit_char_not_minus)
  next
    case False
    with 1 obtain ch rest where "string_of_nat (n div 10) = ch # rest" "ch \<noteq> CHR ''-''" by blast
    with False show ?thesis
      by (simp add: string_of_nat_step)
  qed
qed

lemma decimal_of_int_inj: "decimal_of_int i = decimal_of_int j \<Longrightarrow> i = j"
proof -
  assume eq: "decimal_of_int i = decimal_of_int j"
  obtain ci ri where hi: "string_of_nat (nat i) = ci # ri" "ci \<noteq> CHR ''-''"
    using string_of_nat_hd by blast
  obtain cj rj where hj: "string_of_nat (nat j) = cj # rj" "cj \<noteq> CHR ''-''"
    using string_of_nat_hd by blast
  consider "i < 0" "j < 0" | "i < 0" "0 \<le> j" | "0 \<le> i" "j < 0" | "0 \<le> i" "0 \<le> j" by linarith
  then show "i = j"
  proof cases
    case 1
    with eq have "nat (- i) = nat (- j)"
      by (auto simp: decimal_of_int_def dest: string_of_nat_inj)
    with 1 show ?thesis by simp
  next
    case 2
    with eq hj show ?thesis by (simp add: decimal_of_int_def)
  next
    case 3
    with eq hi show ?thesis by (simp add: decimal_of_int_def)
  next
    case 4
    with eq have "nat i = nat j"
      by (auto simp: decimal_of_int_def dest: string_of_nat_inj)
    with 4 show ?thesis by simp
  qed
qed

lemma excessBits_safe: "m < 9007199254740992 \<Longrightarrow> excessBits m = 0"
  by (simp add: excessBits.simps[of m])

lemma excessBits_next:
  "9007199254740992 \<le> m \<Longrightarrow> m < 18014398509481984 \<Longrightarrow> excessBits m = 1"
  by (simp add: excessBits.simps[of m] excessBits_safe)

lemma roundToDouble_exact:
  assumes "\<bar>x\<bar> \<le> 9007199254740992"
  shows "roundToDouble x = x"
proof (cases "\<bar>x\<bar> < 9007199254740992")
  case True
  then have "excessBits (nat \<bar>x\<bar>) = 0" by (simp add: excessBits_safe)
  then show ?thesis
    by (simp add: roundToDouble_def Let_def mult_sgn_abs)
next
  case False
  with assms have "x = 9007199254740992 \<or> x = - 9007199254740992" by linarith
  then show ?thesis
    by (auto simp: roundToDouble_def Let_def excessBits_next)
qed

lemma jsIncrement_exact:
  "- 9007199254740992 \<le> index \<Longrightarrow> index < 9007199254740992 \<Longrightarrow> jsIncrement index = index + 1"
  by (simp add: jsIncrement_def roundToDouble_exact)

lemma jsIncrement_stuck: "jsIncrement 9007199254740992 = 9007199254740992"
  by (simp add: jsIncrement_def roundToDouble_def Let_def excessBits_next)

lemma jsIncrement_examples:
  "jsIncrement 0 = 1" "jsIncrement (- 1) = 0"
  "jsIncrement 9007199254740991 = 9007199254740992"
  "jsIncrement 9007199254740992 = 9007199254740992"
  "jsIncrement 9007199254740994 = 9007199254740996"
  "jsIncrement 9007199254740996 = 9007199254740996"
  "jsIncrement (- 9007199254740992) = - 9007199254740991"
  "jsIncrement (- 9007199254740994) = - 9007199254740992"
  by (simp_all add: jsIncrement_def roundToDouble_def Let_def excessBits_next excessBits_safe)

lemma uniqueNameCandidate_safe:
  "\<bar>index\<bar> \<le> 9007199254740992 \<Longrightarrow>
     uniqueNameCandidate beyondSafe namePrefix index = namePrefix @ ''_'' @ decimal_of_int index"
  by (simp add: uniqueNameCandidate_def numberToString_def)

lemma createUniqueNameFrom_stuck:
  assumes "jsIncrement index = index"
    and "find (\<lambda>usedName. usedName = uniqueNameCandidate beyondSafe namePrefix index) usedNames \<noteq> None"
  shows "createUniqueNameFrom beyondSafe usedNames namePrefix index = None"
proof (rule ccontr)
  assume "createUniqueNameFrom beyondSafe usedNames namePrefix index \<noteq> None"
  then obtain y where y: "createUniqueNameFrom beyondSafe usedNames namePrefix index = Some y" by blast
  have "\<not> (jsIncrement index = index
           \<and> find (\<lambda>usedName. usedName = uniqueNameCandidate beyondSafe namePrefix index) usedNames \<noteq> None)"
  proof (rule createUniqueNameFrom.raw_induct
      [where P = "\<lambda>b used pre i y. \<not> (jsIncrement i = i
                     \<and> find (\<lambda>usedName. usedName = uniqueNameCandidate b pre i) used \<noteq> None)",
       OF _ y])
    fix loop b used pre i y
    assume ih: "\<And>b used pre i y. loop b used pre i = Some y \<Longrightarrow>
                  \<not> (jsIncrement i = i
                     \<and> find (\<lambda>usedName. usedName = uniqueNameCandidate b pre i) used \<noteq> None)"
      and body: "(let name = uniqueNameCandidate b pre i in
                  if find (\<lambda>usedName. usedName = name) used \<noteq> None
                  then loop b used pre (jsIncrement i)
                  else Some (name, jsIncrement i)) = Some y"
    show "\<not> (jsIncrement i = i
              \<and> find (\<lambda>usedName. usedName = uniqueNameCandidate b pre i) used \<noteq> None)"
    proof
      assume s: "jsIncrement i = i \<and> find (\<lambda>usedName. usedName = uniqueNameCandidate b pre i) used \<noteq> None"
      with body have "loop b used pre i = Some y" by (simp add: Let_def)
      from ih[OF this] s show False by simp
    qed
  qed
  with assms show False by simp
qed

lemma createUniqueNameFrom_safe:
  assumes "n = card {j. index \<le> j \<and> j < 9007199254740992
                       \<and> namePrefix @ ''_'' @ decimal_of_int j \<in> set usedNames}"
    and "- 9007199254740992 \<le> index" and "index + int n < 9007199254740992"
  shows "\<exists>N. index \<le> N
     \<and> createUniqueNameFrom beyondSafe usedNames namePrefix index
         = Some (namePrefix @ ''_'' @ decimal_of_int N, N + 1)
     \<and> namePrefix @ ''_'' @ decimal_of_int N \<notin> set usedNames
     \<and> (\<forall>j. index \<le> j \<and> j < N \<longrightarrow> namePrefix @ ''_'' @ decimal_of_int j \<in> set usedNames)"
  using assms
proof (induction n arbitrary: index)
  case 0
  let ?S = "{j. index \<le> j \<and> j < 9007199254740992
               \<and> namePrefix @ ''_'' @ decimal_of_int j \<in> set usedNames}"
  have fin: "finite ?S" by (rule finite_subset[of _ "{index..<9007199254740992}"]) auto
  with 0(1) have "?S = {}" by simp
  with 0(3) have free: "namePrefix @ ''_'' @ decimal_of_int index \<notin> set usedNames" by auto
  have cand: "uniqueNameCandidate beyondSafe namePrefix index = namePrefix @ ''_'' @ decimal_of_int index"
    using 0(2,3) by (intro uniqueNameCandidate_safe) simp
  have "createUniqueNameFrom beyondSafe usedNames namePrefix index
          = Some (namePrefix @ ''_'' @ decimal_of_int index, index + 1)"
    using free 0(2,3)
    by (simp add: createUniqueNameFrom.simps[of _ _ _ index] cand find_eq_None_iff jsIncrement_exact)
  with free show ?case by (intro exI[of _ index]) auto
next
  case (Suc n)
  let ?S = "\<lambda>i. {j. i \<le> j \<and> j < 9007199254740992
               \<and> namePrefix @ ''_'' @ decimal_of_int j \<in> set usedNames}"
  have fin: "finite (?S index)" by (rule finite_subset[of _ "{index..<9007199254740992}"]) auto
  have lt: "index < 9007199254740992" using Suc.prems(3) by simp
  have cand: "uniqueNameCandidate beyondSafe namePrefix index = namePrefix @ ''_'' @ decimal_of_int index"
    using Suc.prems(2) lt by (intro uniqueNameCandidate_safe) simp
  show ?case
  proof (cases "namePrefix @ ''_'' @ decimal_of_int index \<in> set usedNames")
    case False
    have "createUniqueNameFrom beyondSafe usedNames namePrefix index
            = Some (namePrefix @ ''_'' @ decimal_of_int index, index + 1)"
      using False Suc.prems(2) lt
      by (simp add: createUniqueNameFrom.simps[of _ _ _ index] cand find_eq_None_iff jsIncrement_exact)
    with False show ?thesis by (intro exI[of _ index]) auto
  next
    case True
    have step: "createUniqueNameFrom beyondSafe usedNames namePrefix index
                  = createUniqueNameFrom beyondSafe usedNames namePrefix (index + 1)"
      using True Suc.prems(2) lt
      by (simp add: createUniqueNameFrom.simps[of _ _ _ index] cand find_eq_None_iff jsIncrement_exact)
    have mem: "index \<in> ?S index" using True lt by simp
    have "?S (index + 1) = ?S index - {index}"
    proof (rule set_eqI)
      fix j
      show "j \<in> ?S (index + 1) \<longleftrightarrow> j \<in> ?S index - {index}"
      proof (cases "j = index")
        case True
        then show ?thesis by simp
      next
        case False
        then have "index + 1 \<le> j \<longleftrightarrow> index \<le> j" by linarith
        with False show ?thesis by simp
      qed
    qed
    then have "card (?S (index + 1)) = card (?S index) - 1"
      using mem by simp
    with Suc.prems(1) have n: "n = card (?S (index + 1))" by simp
    from Suc.IH[OF n] Suc.prems(2,3) obtain N where N: "index + 1 \<le> N"
      "createUniqueNameFrom beyondSafe usedNames namePrefix (index + 1)
         = Some (namePrefix @ ''_'' @ decimal_of_int N, N + 1)"
      "namePrefix @ ''_'' @ decimal_of_int N \<notin> set usedNames"
      "\<forall>j. index + 1 \<le> j \<and> j < N \<longrightarrow> namePrefix @ ''_'' @ decimal_of_int j \<in> set usedNames"
      by auto
    have "\<forall>j. index \<le> j \<and> j < N \<longrightarrow> namePrefix @ ''_'' @ decimal_of_int j \<in> set usedNames"
    proof (intro allI impI)
      fix j assume "index \<le> j \<and> j < N"
      then consider "j = index" | "index + 1 \<le> j \<and> j < N" by linarith
      then show "namePrefix @ ''_'' @ decimal_of_int j \<in> set usedNames"
        using True N(4) by cases auto
    qed
    with N step show ?thesis by (intro exI[of _ N]) simp
  qed
qed

lemma used_candidates_card:
  "card {j. index \<le> j \<and> j < 9007199254740992
            \<and> namePrefix @ ''_'' @ decimal_of_int j \<in> set usedNames} \<le> length usedNames"
proof -
  let ?S = "{j. index \<le> j \<and> j < 9007199254740992
               \<and> namePrefix @ ''_'' @ decimal_of_int j \<in> set usedNames}"
  have "inj_on (\<lambda>j. namePrefix @ ''_'' @ decimal_of_int j) ?S"
    by (rule inj_onI) (simp add: decimal_of_int_inj)
  moreover have "(\<lambda>j. namePrefix @ ''_'' @ decimal_of_int j) ` ?S \<subseteq> set usedNames" by auto
  ultimately have "card ?S \<le> card (set usedNames)"
    by (intro card_inj_on_le) simp_all
  also have "\<dots> \<le> length usedNames" by (rule card_length)
  finally show ?thesis .
qed

lemma decimal_small:
  "decimal_of_int 0 = ''0''" "decimal_of_int 1 = ''1''" "decimal_of_int 2 = ''2''"
  by (simp_all add: decimal_of_int_def string_of_nat_digit digit_char_def)

lemma decimal_two_53: "decimal_of_int 9007199254740992 = ''9007199254740992''"
  by (simp add: decimal_of_int_def string_of_nat_step string_of_nat_digit digit_char_def)

subsection \<open>Matching a pattern in a string\<close>

lemma match_at_split:
  assumes "pos \<le> length s" "take (length p) (drop pos s) = p"
  shows "s = take pos s @ p @ drop (pos + length p) s"
proof -
  have "drop pos s = take (length p) (drop pos s) @ drop (length p) (drop pos s)"
    by (simp only: append_take_drop_id)
  with assms(2) have "drop pos s = p @ drop (pos + length p) s"
    by (simp add: add.commute)
  then have "take pos s @ p @ drop (pos + length p) s = take pos s @ drop pos s"
    by simp
  then show ?thesis by simp
qed

lemma stringIndexOf_none:
  assumes "\<forall>u v. s \<noteq> u @ p @ v"
  shows "stringIndexOf s p = None"
proof -
  have "take (length p) (drop pos s) \<noteq> p" if "pos \<le> length s" for pos
    using match_at_split[OF that] assms by blast
  then show ?thesis
    by (auto simp: stringIndexOf_def find_None_iff)
qed

lemma stringIndexOf_first:
  assumes "s = u @ p @ v" and "\<forall>u' v'. s = u' @ p @ v' \<longrightarrow> length u \<le> length u'"
  shows "stringIndexOf s p = Some (length u)"
proof -
  let ?P = "\<lambda>pos. take (length p) (drop pos s) = p"
  have here: "?P (length u)" using assms(1) by simp
  have le: "length u < length [0..<Suc (length s)]" using assms(1) by simp
  have before: "\<not> ?P j" if "j < length u" for j
  proof
    assume "?P j"
    moreover from that assms(1) have "j \<le> length s" by simp
    ultimately have "s = take j s @ p @ drop (j + length p) s"
      by (intro match_at_split)
    with assms(2) have "length u \<le> length (take j s)" by blast
    with that show False by simp
  qed
  have "\<exists>i<length [0..<Suc (length s)]. ?P ([0..<Suc (length s)] ! i) \<and> length u = [0..<Suc (length s)] ! i
          \<and> (\<forall>j<i. \<not> ?P ([0..<Suc (length s)] ! j))"
  proof (intro exI[of _ "length u"] conjI allI impI)
    show "length u < length [0..<Suc (length s)]" by (rule le)
    show "?P ([0..<Suc (length s)] ! length u)" using here le by (simp del: upt_Suc)
    show "length u = [0..<Suc (length s)] ! length u" using le by (simp del: upt_Suc)
    fix j assume j: "j < length u"
    with le have "[0..<Suc (length s)] ! j = j" by (simp del: upt_Suc)
    with before[OF j] show "\<not> ?P ([0..<Suc (length s)] ! j)" by simp
  qed
  then show ?thesis
    unfolding stringIndexOf_def find_Some_iff by simp
qed

lemma no_earlier_match:
  assumes "\<forall>j<n. take (length p) (drop j s) \<noteq> p"
  shows "\<forall>u' v'. s = u' @ p @ v' \<longrightarrow> n \<le> length u'"
proof (intro allI impI)
  fix u' v' assume "s = u' @ p @ v'"
  then have "take (length p) (drop (length u') s) = p" by simp
  with assms show "n \<le> length u'" by (meson not_le)
qed

lemma no_match_by_char:
  assumes "\<not> set p \<subseteq> set s"
  shows "\<forall>u v. s \<noteq> u @ p @ v"
  using assms by auto

subsection \<open>The scan for a tagged section\<close>

lemma find_index_from:
  "find (\<lambda>i. xs ! i = x) [k..<length xs]
     = (if x \<in> set (drop k xs) then Some (k + length (takeWhile (\<lambda>y. y \<noteq> x) (drop k xs))) else None)"
proof (induction "length xs - k" arbitrary: k)
  case 0
  then show ?case by simp
next
  case (Suc n)
  then have lt: "k < length xs" and ih: "n = length xs - Suc k" by arith+
  have d: "drop k xs = xs ! k # drop (Suc k) xs"
    using lt by (simp add: Cons_nth_drop_Suc)
  show ?case
    using Suc.hyps(1)[OF ih] lt by (simp add: upt_conv_Cons d)
qed

lemma indexOf_from:
  "indexOf xs x (int k)
     = (if x \<in> set (drop k xs) then int (k + length (takeWhile (\<lambda>y. y \<noteq> x) (drop k xs))) else - 1)"
  by (simp add: indexOf_def find_index_from)

lemma filter_enumerate_outside:
  "b \<le> e \<Longrightarrow> map snd (filter (\<lambda>(i, _). i < b \<or> e < i) (enumerate n xs))
     = take (b - n) xs @ drop (Suc e - n) xs"
proof (induction xs arbitrary: n)
  case Nil
  then show ?case by simp
next
  case (Cons x xs)
  consider "n < b" | "b \<le> n" "n \<le> e" | "e < n" by linarith
  then show ?case
  proof cases
    case 1
    with Cons show ?thesis by (simp add: take_Cons' drop_Cons' Suc_diff_le)
  next
    case 2
    with Cons show ?thesis by (simp add: take_Cons' drop_Cons' Suc_diff_le)
  next
    case 3
    with Cons show ?thesis by (simp add: take_Cons' drop_Cons')
  qed
qed

lemma takeWhile_first:
  "b \<notin> set pre \<Longrightarrow> takeWhile (\<lambda>y. y \<noteq> b) (pre @ b # rest) = pre"
  by (induction pre) auto

lemma dropWhile_first:
  "b \<notin> set pre \<Longrightarrow> dropWhile (\<lambda>y. y \<noteq> b) (pre @ b # rest) = b # rest"
  by (induction pre) auto

lemma removeTagSection_split:
  assumes "cmds = pre @ b # mid @ e # post" "b \<notin> set pre" "e \<notin> set mid"
  shows "removeTagSection cmds b e = pre @ post"
proof -
  have tw: "takeWhile (\<lambda>y. y \<noteq> b) cmds = pre"
    using assms by (simp add: takeWhile_first)
  have bi: "indexOf cmds b 0 = int (length pre)"
    using indexOf_from[of cmds b 0] assms tw by simp
  have dr: "drop (Suc (length pre)) cmds = mid @ e # post"
    using assms by simp
  have tw2: "takeWhile (\<lambda>y. y \<noteq> e) (mid @ e # post) = mid"
    using assms takeWhile_first[of e mid post] by simp
  have ei: "indexOf cmds e (int (length pre) + 1) = int (Suc (length pre) + length mid)"
    using indexOf_from[of cmds e "Suc (length pre)"] dr tw2 by (simp add: add.commute)
  have "removeTagSection cmds b e
      = map snd (filter (\<lambda>(i, _). i < length pre \<or> Suc (length pre) + length mid < i) (enumerate 0 cmds))"
    by (simp add: removeTagSection_def bi ei Let_def del: of_nat_add of_nat_Suc)
  also have "\<dots> = take (length pre) cmds @ drop (Suc (Suc (length pre) + length mid)) cmds"
    using filter_enumerate_outside[of "length pre" "Suc (length pre) + length mid" 0 cmds] by simp
  also have "\<dots> = pre @ post"
    using assms by simp
  finally show ?thesis .
qed

lemma removeTagSection_no_begin:
  "b \<notin> set cmds \<Longrightarrow> removeTagSection cmds b e = cmds"
  using indexOf_from[of cmds b 0] by (simp add: removeTagSection_def Let_def)

lemma removeTagSection_no_end:
  assumes "cmds = pre @ b # rest" "b \<notin> set pre" "e \<notin> set rest"
  shows "removeTagSection cmds b e = cmds"
proof -
  have tw: "takeWhile (\<lambda>y. y \<noteq> b) cmds = pre"
    using assms by (simp add: takeWhile_first)
  have bi: "indexOf cmds b 0 = int (length pre)"
    using indexOf_from[of cmds b 0] assms tw by simp
  have dr: "drop (Suc (length pre)) cmds = rest"
    using assms by simp
  have ei: "indexOf cmds e (int (length pre) + 1) = - 1"
    using indexOf_from[of cmds e "Suc (length pre)"] dr assms by (simp add: add.commute)
  show ?thesis
    by (simp add: removeTagSection_def bi ei Let_def)
qed

lemma sectionPresent_iff:
  "sectionPresent cmds b e
     = (\<exists>pre mid post. cmds = pre @ b # mid @ e # post \<and> b \<notin> set pre \<and> e \<notin> set mid)"
proof
  assume sp: "sectionPresent cmds b e"
  define pre where "pre = takeWhile (\<lambda>x. x \<noteq> b) cmds"
  define rest where "rest = tl (dropWhile (\<lambda>x. x \<noteq> b) cmds)"
  from sp have ne: "dropWhile (\<lambda>x. x \<noteq> b) cmds \<noteq> []"
    by (cases "dropWhile (\<lambda>x. x \<noteq> b) cmds") (auto simp: sectionPresent_def)
  then have "hd (dropWhile (\<lambda>x. x \<noteq> b) cmds) = b"
    using hd_dropWhile[of "\<lambda>x. x \<noteq> b" cmds] by simp
  with ne have dw: "dropWhile (\<lambda>x. x \<noteq> b) cmds = b # rest"
    by (cases "dropWhile (\<lambda>x. x \<noteq> b) cmds") (auto simp: rest_def)
  have c: "cmds = pre @ b # rest"
    using takeWhile_dropWhile_id[of "\<lambda>x. x \<noteq> b" cmds] dw by (simp add: pre_def)
  have bp: "b \<notin> set pre"
    by (auto simp: pre_def dest: set_takeWhileD)
  from sp have "e \<in> set rest" by (simp add: sectionPresent_def rest_def)
  then obtain mid post where r: "rest = mid @ e # post" "e \<notin> set mid"
    by (auto dest: split_list_first)
  show "\<exists>pre mid post. cmds = pre @ b # mid @ e # post \<and> b \<notin> set pre \<and> e \<notin> set mid"
    using c bp r by blast
next
  assume "\<exists>pre mid post. cmds = pre @ b # mid @ e # post \<and> b \<notin> set pre \<and> e \<notin> set mid"
  then obtain pre mid post where c: "cmds = pre @ b # mid @ e # post" "b \<notin> set pre" by blast
  then have "dropWhile (\<lambda>x. x \<noteq> b) cmds = b # mid @ e # post"
    by (simp add: dropWhile_first)
  then show "sectionPresent cmds b e" by (simp add: sectionPresent_def)
qed

lemma removeTagSection_absent:
  assumes "\<not> sectionPresent cmds b e"
  shows "removeTagSection cmds b e = cmds"
proof (cases "b \<in> set cmds")
  case False
  then show ?thesis by (rule removeTagSection_no_begin)
next
  case True
  then obtain pre rest where c: "cmds = pre @ b # rest" "b \<notin> set pre"
    by (auto dest: split_list_first)
  then have "dropWhile (\<lambda>x. x \<noteq> b) cmds = b # rest"
    by (simp add: dropWhile_first)
  with assms have "e \<notin> set rest" by (simp add: sectionPresent_def)
  with c show ?thesis by (rule removeTagSection_no_end)
qed

lemma removeTagSections_absent:
  assumes "\<not> generatedSectionPresent c cmds"
  shows "removeTagSection
           (removeTagSection
              (removeTagSection cmds (CUSTOM_STORAGE_START c) (CUSTOM_STORAGE_END c))
              (TEAMWISE_DATA_CMD_START c) (TEAMWISE_DATA_CMD_END c))
           (TENSORBOARD_CMD_START c) (TENSORBOARD_CMD_END c) = cmds"
  using assms by (simp add: generatedSectionPresent_def removeTagSection_absent)

subsection \<open>The strip pass\<close>

lemma stripTaskRole_commands_unchanged:
  assumes "\<And>cmds. commands taskRole = Some cmds \<Longrightarrow> \<not> generatedSectionPresent c cmds"
  shows "commands (stripTaskRole c tensorBoardPort taskRole) = commands taskRole"
proof (cases "commands taskRole")
  case None
  then show ?thesis by (simp add: stripTaskRole_def)
next
  case (Some cmds)
  with assms have "\<not> generatedSectionPresent c cmds" by simp
  then show ?thesis
    using Some by (simp add: stripTaskRole_def Let_def removeTagSections_absent)
qed

lemma stripTaskRole_nothingToStrip:
  assumes "nothingToStrip c tensorBoardPort taskRole"
  shows "stripTaskRole c tensorBoardPort taskRole = taskRole"
proof (cases "commands taskRole")
  case None
  then show ?thesis by (simp add: stripTaskRole_def)
next
  case (Some cmds)
  show ?thesis
  proof (cases "cmds = []")
    case True
    with Some show ?thesis by (simp add: stripTaskRole_def)
  next
    case False
    with assms Some have a: "\<not> generatedSectionPresent c cmds" "\<not> portDeclared tensorBoardPort taskRole"
      by (simp_all add: nothingToStrip_def)
    have "taskRole\<lparr>commands := Some cmds\<rparr> = taskRole"
      using Some by simp
    then show ?thesis
      using Some False a
      by (simp add: stripTaskRole_def Let_def removeTagSections_absent portDeclared_def
               split: option.splits)
  qed
qed

lemma strip_returns:
  "taskRoles d = Some roles \<Longrightarrow>
     removeAutoGeneratedCodeFromProtocolTaskRoles c d
       = Inr (d\<lparr>taskRoles :=
                Some (map (\<lambda>(roleName, role). (roleName, stripTaskRole c (declaredTensorBoardPort d) role))
                          roles)\<rparr>)"
  by (simp add: removeAutoGeneratedCodeFromProtocolTaskRoles_def)

lemma strip_throws:
  "taskRoles d = None \<Longrightarrow> removeAutoGeneratedCodeFromProtocolTaskRoles c d = Inl TypeError"
  by (simp add: removeAutoGeneratedCodeFromProtocolTaskRoles_def)

lemma strip_frame:
  assumes "removeAutoGeneratedCodeFromProtocolTaskRoles c d = Inr d'"
  shows "name d' = name d" "parameters d' = parameters d" "deployments d' = deployments d"
    "prerequisites d' = prerequisites d" "secrets d' = secrets d" "extras d' = extras d"
    "\<exists>roles roles'. taskRoles d = Some roles \<and> taskRoles d' = Some roles'
        \<and> map fst roles' = map fst roles"
  using assms
  by (auto simp: removeAutoGeneratedCodeFromProtocolTaskRoles_def case_prod_unfold
           split: option.splits)


lemma strip_commands_unchanged:
  assumes "taskRoles d = Some roles"
    and "\<forall>(roleName, role) \<in> set roles.
           \<forall>cs. commands role = Some cs \<longrightarrow> \<not> generatedSectionPresent c cs"
  shows "\<exists>d' roles'. removeAutoGeneratedCodeFromProtocolTaskRoles c d = Inr d'
           \<and> taskRoles d' = Some roles'
           \<and> map (\<lambda>(roleName, role). (roleName, commands role)) roles'
               = map (\<lambda>(roleName, role). (roleName, commands role)) roles"
proof -
  have "map (\<lambda>(roleName, role). (roleName, commands role))
          (map (\<lambda>(roleName, role). (roleName, stripTaskRole c (declaredTensorBoardPort d) role)) roles)
        = map (\<lambda>(roleName, role). (roleName, commands role)) roles"
    using assms(2) by (auto simp: stripTaskRole_commands_unchanged)
  then show ?thesis
    using assms(1) by (simp add: strip_returns)
qed

subsection \<open>Decomposing\<close>

lemma decompose_throws:
  "taskRoles d = None \<Longrightarrow>
     getJobComponentsFromConfig c basicInfo taskRole (Some d) ctx
       = \<lparr>documentAfter = Some d, returned = None, alerts = [], thrown = Some TypeError\<rparr>"
  by (simp add: getJobComponentsFromConfig_def strip_throws)

lemma decompose_returns:
  assumes "removeAutoGeneratedCodeFromProtocolTaskRoles c d = Inr d'"
  shows "documentAfter (getJobComponentsFromConfig c basicInfo taskRole (Some d) ctx) = Some d'"
    and "thrown (getJobComponentsFromConfig c basicInfo taskRole (Some d) ctx) = None"
    and "\<exists>r. returned (getJobComponentsFromConfig c basicInfo taskRole (Some d) ctx) = Some r
           \<and> updatedJobInformation r = populateComponents (basicInfo d') ctx"
  using assms by (simp_all add: getJobComponentsFromConfig_def Let_def)

lemma decompose_returned_iff:
  "(returned (getJobComponentsFromConfig c basicInfo taskRole (Some d) ctx) \<noteq> None)
     = (taskRoles d \<noteq> None)"
proof (cases "taskRoles d")
  case None
  then show ?thesis by (simp add: decompose_throws)
next
  case (Some roles)
  then show ?thesis by (simp add: getJobComponentsFromConfig_def strip_returns Let_def)
qed

subsection \<open>Joining with commas, and the order of the keys\<close>

lemma join_Cons: "join sep (x # xs) = x @ concat (map (\<lambda>y. sep @ y) xs)"
  by (induction xs arbitrary: x) simp_all

lemma concat_enumerate_later:
  "concat (map (\<lambda>(i, y). (if i = 0 then [] else sep) @ y) (enumerate (Suc n) xs))
     = concat (map (\<lambda>y. sep @ y) xs)"
  by (induction xs arbitrary: n) simp_all

lemma join_commas:
  "join sep xs = concat (map (\<lambda>(i, y). (if i = 0 then [] else sep) @ y) (enumerate 0 xs))"
  by (cases xs) (simp_all add: join_Cons concat_enumerate_later)

lemma ownKeysOrder_no_index:
  assumes "list_all (\<lambda>(k, v). \<not> isArrayIndex k) inserted"
  shows "ownKeysOrder inserted = inserted"
proof -
  have "filter (\<lambda>(k, v). isArrayIndex k) inserted = []"
    using assms by (auto simp: filter_empty_conv list_all_iff)
  moreover have "filter (\<lambda>(k, v). \<not> isArrayIndex k) inserted = inserted"
    using assms by (auto simp: filter_id_conv list_all_iff)
  ultimately show ?thesis by (simp add: ownKeysOrder_def)
qed

subsection \<open>The strip pass after the injection\<close>

lemma sectionPresent_append:
  "b \<notin> set block \<Longrightarrow> sectionPresent (block @ cmds) b e = sectionPresent cmds b e"
  by (induction block) (auto simp: sectionPresent_def)

lemma generatedSectionPresent_block:
  assumes "blockDelimited c tb" "\<not> generatedSectionPresent c cmds"
  shows "removeTagSection
           (removeTagSection
              (removeTagSection (tensorBoardCommands c tb @ cmds)
                 (CUSTOM_STORAGE_START c) (CUSTOM_STORAGE_END c))
              (TEAMWISE_DATA_CMD_START c) (TEAMWISE_DATA_CMD_END c))
           (TENSORBOARD_CMD_START c) (TENSORBOARD_CMD_END c) = cmds"
proof -
  let ?block = "tensorBoardCommands c tb"
  from assms have cs: "\<not> sectionPresent (?block @ cmds) (CUSTOM_STORAGE_START c) (CUSTOM_STORAGE_END c)"
    and tw: "\<not> sectionPresent (?block @ cmds) (TEAMWISE_DATA_CMD_START c) (TEAMWISE_DATA_CMD_END c)"
    by (simp_all add: blockDelimited_def Let_def generatedSectionPresent_def sectionPresent_append)
  obtain launch where block: "?block = [TENSORBOARD_CMD_START c, AUTO_GENERATE_NOTIFY c, launch, TENSORBOARD_CMD_END c]"
    by (simp add: tensorBoardCommands_def Let_def)
  from assms(1) have mid: "TENSORBOARD_CMD_END c \<notin> set [AUTO_GENERATE_NOTIFY c, launch]"
    unfolding blockDelimited_def Let_def block by simp
  have "removeTagSection (?block @ cmds) (TENSORBOARD_CMD_START c) (TENSORBOARD_CMD_END c) = [] @ cmds"
    by (rule removeTagSection_split[where mid = "[AUTO_GENERATE_NOTIFY c, launch]"])
       (use mid in \<open>simp_all add: block\<close>)
  then show ?thesis
    by (simp add: removeTagSection_absent cs tw)
qed

lemma delete_update_fresh:
  "map_of ps k = None \<Longrightarrow> AList.delete k (AList.update k v ps) = ps"
  by (simp add: delete_update_same map_of_eq_None_iff)

lemma stripTaskRole_injectTensorBoard:
  assumes "blockDelimited c tb"
    and "\<And>cmds. commands taskRole = Some cmds \<Longrightarrow> \<not> generatedSectionPresent c cmds"
    and "\<not> portDeclared (Some (tensorBoardPortName (randomStr tb))) taskRole"
  shows "stripTaskRole c (Some (tensorBoardPortName (randomStr tb))) (injectTensorBoard c tb taskRole)
           = presentFields taskRole"
proof -
  let ?cmds = "case commands taskRole of Some cs \<Rightarrow> cs | None \<Rightarrow> []"
  let ?ps = "case ports (resourcePerInstance taskRole) of Some ps \<Rightarrow> ps | None \<Rightarrow> []"
  have g: "\<not> generatedSectionPresent c ?cmds"
    using assms(2) by (cases "commands taskRole") (simp_all add: generatedSectionPresent_def sectionPresent_def)
  have ne: "tensorBoardCommands c tb \<noteq> []"
    by (simp add: tensorBoardCommands_def Let_def)
  have fresh: "map_of ?ps (tensorBoardPortName (randomStr tb)) = None"
    using assms(3) by (cases "ports (resourcePerInstance taskRole)") (simp_all add: portDeclared_def)
  show ?thesis
    by (simp add: ne stripTaskRole_def injectTensorBoard_def presentFields_def Let_def
          generatedSectionPresent_block[OF assms(1) g] update_conv' delete_update_fresh[OF fresh])
qed


subsection \<open>Array indices among the keys\<close>

lemma string_of_nat_digits: "set (string_of_nat n) \<subseteq> set ''0123456789''"
proof (induction n rule: string_of_nat.induct)
  case (1 n)
  have d: "digit_char k \<in> set ''0123456789''" if "k < 10" for k
    using digit_cases[OF that] by (auto simp: digit_char_def)
  show ?case
  proof (cases "n < 10")
    case True
    then show ?thesis using d[of n] by (simp add: string_of_nat_digit)
  next
    case False
    with 1 have "set (string_of_nat (n div 10)) \<subseteq> set ''0123456789''" by simp
    with False show ?thesis using d[of "n mod 10"] by (simp add: string_of_nat_step)
  qed
qed

lemma not_isArrayIndex:
  "ch \<in> set k \<Longrightarrow> ch \<notin> set ''0123456789'' \<Longrightarrow> \<not> isArrayIndex k"
  using string_of_nat_digits[of "nat_of_string k"] by (auto simp: isArrayIndex_def)

lemma isArrayIndex_examples:
  "isArrayIndex ''0''" "isArrayIndex ''10''" "isArrayIndex ''4294967294''"
  "\<not> isArrayIndex ''4294967295''" "\<not> isArrayIndex ''01''" "\<not> isArrayIndex []"
  "\<not> isArrayIndex ''-1''" "\<not> isArrayIndex ''1a''"
  by (simp_all add: isArrayIndex_def nat_of_string_def digit_value_def
        string_of_nat_step string_of_nat_digit digit_char_def)

lemma ownKeysOrder_example:
  "ownKeysOrder [(''b'', 1::nat), (''10'', 2), (''a'', 3), (''9'', 4), (''01'', 5)]
     = [(''9'', 4), (''10'', 2), (''b'', 1), (''a'', 3), (''01'', 5)]"
  by (simp add: ownKeysOrder_def isArrayIndex_def nat_of_string_def digit_value_def
        string_of_nat_step string_of_nat_digit digit_char_def)

lemma example_keys:
  "\<not> isArrayIndex ''worker''" "\<not> isArrayIndex ''ps''" "isArrayIndex ''1''"
proof -
  show "\<not> isArrayIndex ''worker''" by (rule not_isArrayIndex[of "CHR ''w''"]) simp_all
  show "\<not> isArrayIndex ''ps''" by (rule not_isArrayIndex[of "CHR ''p''"]) simp_all
  show "isArrayIndex ''1''"
    by (simp add: isArrayIndex_def nat_of_string_def digit_value_def string_of_nat_digit digit_char_def)
qed

subsection \<open>The secrets of a decomposed job\<close>

text \<open>
  When the strip pass returns, the call returns the components of the document. When the
  secrets are the redaction string \<open>******\<close> the list of secret pairs is empty and the
  one warning is shown; otherwise nothing is shown and the list has one pair per entry of
  the secrets mapping (none when the document has no secrets; a string that is not the
  redaction string gives its characters under their indices).
\<close>

lemma getJobComponentsFromConfig_secrets:
  assumes "taskRoles d = Some roles"
  shows "\<exists>r. returned (getJobComponentsFromConfig c basicInfo taskRole (Some d) ctx) = Some r
       \<and> thrown (getJobComponentsFromConfig c basicInfo taskRole (Some d) ctx) = None
       \<and> (if secrets d = Some (SecretsString HIDE_SECRET)
           then updatedSecrets r = []
                \<and> alerts (getJobComponentsFromConfig c basicInfo taskRole (Some d) ctx) = [SECRETS_WARNING]
           else alerts (getJobComponentsFromConfig c basicInfo taskRole (Some d) ctx) = []
                \<and> updatedSecrets r
                    = (case secrets d of
                         None \<Rightarrow> []
                       | Some (SecretsObject kvs) \<Rightarrow> map (\<lambda>(k, v). \<lparr>key = k, val = v\<rparr>) kvs
                       | Some (SecretsString s) \<Rightarrow>
                           map (\<lambda>(k, v). \<lparr>key = k, val = v\<rparr>)
                               (zip (map string_of_nat [0..<length s]) (map (\<lambda>ch. JString [ch]) s))))"
  using assms
  by (simp add: getJobComponentsFromConfig_def Let_def removeAutoGeneratedCodeFromProtocolTaskRoles_def
        HIDE_SECRET_def split: option.splits secretsValue.splits)

section \<open>The claims\<close>

subsection \<open>C1: injecting the TensorBoard block, then stripping\<close>

text \<open>
  Claim C1 says that the injection followed by the strip pass gives back every role's
  command list and port map exactly. It does not: the strip pass removes every generated
  section it finds, whoever wrote it, deletes the port identifier from every role it
  visits, and leaves an empty list and an empty map where the first role had none. On
  \<open>generatedJob\<close> the first role comes back with an empty command list and an empty
  port map it did not have, and the second role loses its custom-storage section and its
  port.
\<close>

theorem inject_then_strip_counterexample:
  "injectThenStrip exampleConstants generatedJob
     = Inr (generatedJob\<lparr>taskRoles := Some
              [(''worker'', \<lparr>commands = Some [], resourcePerInstance = \<lparr>ports = Some []\<rparr>\<rparr>),
               (''ps'', \<lparr>commands = Some [''python ps.py''],
                         resourcePerInstance = \<lparr>ports = Some []\<rparr>\<rparr>)]\<rparr>)
   \<and> taskRoles generatedJob
     = Some [(''worker'', \<lparr>commands = None, resourcePerInstance = \<lparr>ports = None\<rparr>\<rparr>),
        (''ps'', \<lparr>commands = Some [''#CUSTOM_STORAGE_START'', ''mkdir /data'', ''#CUSTOM_STORAGE_END'',
                                   ''python ps.py''],
                  resourcePerInstance = \<lparr>ports = Some [(''tensorBoardPort_k3x9q2ab'', 5)]\<rparr>\<rparr>)]
   \<and> injectThenStrip exampleConstants generatedJob \<noteq> Inr generatedJob"
  by code_simp

text \<open>
  Claim C1, amended. Let the document have a first task role and a TensorBoard extras
  record, let the sentinel constants delimit the generated block, let no role's command
  list hold a well-formed generated section and no role's port map hold the generated
  port identifier. Then the injection followed by the strip pass returns the document
  with every role as it was, except that a command list or port map the first role did
  not have comes back empty; when the first role has both, the document comes back
  exactly.
\<close>

theorem inject_then_strip_restores:
  assumes "taskRoles d = Some ((firstTaskRole, role) # others)"
    and "extras d = Some e" and "tensorBoard e = Some tb"
    and "blockDelimited c tb"
    and "\<forall>(roleName, r) \<in> set ((firstTaskRole, role) # others).
           (\<forall>cmds. commands r = Some cmds \<longrightarrow> \<not> generatedSectionPresent c cmds)
           \<and> \<not> portDeclared (Some (tensorBoardPortName (randomStr tb))) r"
  shows "injectThenStrip c d
           = Inr (d\<lparr>taskRoles := Some ((firstTaskRole, presentFields role) # others)\<rparr>)
         \<and> (commands role \<noteq> None \<and> ports (resourcePerInstance role) \<noteq> None
              \<longrightarrow> injectThenStrip c d = Inr d)"
proof -
  let ?port = "Some (tensorBoardPortName (randomStr tb))"
  let ?d1 = "d\<lparr>taskRoles := Some ((firstTaskRole, injectTensorBoard c tb role) # others)\<rparr>"
  have inj: "addTensorBoardCommandsToProtocolTaskRoles c d = Inr ?d1"
    using assms(1-3) by (simp add: addTensorBoardCommandsToProtocolTaskRoles_def)
  have port: "declaredTensorBoardPort ?d1 = ?port"
    using assms(2,3) by (simp add: declaredTensorBoardPort_def)
  have first: "stripTaskRole c ?port (injectTensorBoard c tb role) = presentFields role"
    using assms(4,5) by (intro stripTaskRole_injectTensorBoard) auto
  have "\<forall>(roleName, r) \<in> set others. nothingToStrip c ?port r"
    using assms(5) by (auto simp: nothingToStrip_def split: option.splits)
  then have rest: "map (\<lambda>(roleName, r). (roleName, stripTaskRole c ?port r)) others = map (\<lambda>x. x) others"
    by (intro map_cong) (auto simp: stripTaskRole_nothingToStrip)
  have main: "injectThenStrip c d
                = Inr (d\<lparr>taskRoles := Some ((firstTaskRole, presentFields role) # others)\<rparr>)"
    using rest by (simp add: injectThenStrip_def inj removeAutoGeneratedCodeFromProtocolTaskRoles_def port first)
  have "presentFields role = role" if "commands role \<noteq> None \<and> ports (resourcePerInstance role) \<noteq> None"
    using that by (auto simp: presentFields_def)
  then show ?thesis
    using main assms(1) by (auto simp del: not_None_eq)
qed

theorem inject_then_strip_restores_witness:
  "injectThenStrip exampleConstants exampleJob = Inr exampleJob"
proof -
  have "injectThenStrip exampleConstants exampleJob
          = Inr (exampleJob\<lparr>taskRoles := Some ((''worker'', presentFields \<lparr>commands = Some [''python train.py''],
                       resourcePerInstance = \<lparr>ports = Some [(''ssh'', 1)]\<rparr>\<rparr>) #
                      [(''ps'', \<lparr>commands = None, resourcePerInstance = \<lparr>ports = None\<rparr>\<rparr>)])\<rparr>)
        \<and> (commands \<lparr>commands = Some [''python train.py''],
                       resourcePerInstance = \<lparr>ports = Some [(''ssh'', 1)]\<rparr>\<rparr> \<noteq> None
           \<and> ports (resourcePerInstance \<lparr>commands = Some [''python train.py''],
                       resourcePerInstance = \<lparr>ports = Some [(''ssh'', 1)]\<rparr>\<rparr>) \<noteq> None
           \<longrightarrow> injectThenStrip exampleConstants exampleJob = Inr exampleJob)"
    by (rule inject_then_strip_restores[where e = "\<lparr>tensorBoard = Some exampleTensorBoard\<rparr>"
          and tb = exampleTensorBoard])
       (simp_all add: example_defs)
  then have "commands \<lparr>commands = Some [''python train.py''],
                       resourcePerInstance = \<lparr>ports = Some [(''ssh'', 1)]\<rparr>\<rparr> \<noteq> None
           \<and> ports (resourcePerInstance \<lparr>commands = Some [''python train.py''],
                       resourcePerInstance = \<lparr>ports = Some [(''ssh'', 1)]\<rparr>\<rparr>) \<noteq> None
           \<longrightarrow> injectThenStrip exampleConstants exampleJob = Inr exampleJob"
    by (rule conjunct2)
  then show ?thesis by simp
qed

subsection \<open>C2: what decomposing does to the document passed in\<close>




subsection \<open>C3: a section is removed only when it is well formed\<close>

text \<open>
  Claim C3. When the command list is \<open>pre @ b # mid @ e # post\<close> with the begin
  sentinel \<open>b\<close> not in \<open>pre\<close> and the end sentinel \<open>e\<close> not in \<open>mid\<close>, the scan
  removes the run from \<open>b\<close> to \<open>e\<close>, both included, and returns \<open>pre @ post\<close>. When
  the begin sentinel is missing, or the end sentinel does not occur after the first begin
  sentinel (it is missing, or occurs only at or before it), the list is returned as it
  is; the scan is a total function and raises nothing. \<open>sectionPresent\<close> is the first
  case. A document in which no role's command list holds a well-formed section of any of
  the three kinds leaves the strip pass with every role's commands as they were.
\<close>

theorem removeTagSection_only_well_formed:
  "(\<forall>pre mid post. cmds = pre @ b # mid @ e # post \<and> b \<notin> set pre \<and> e \<notin> set mid
        \<longrightarrow> removeTagSection cmds b e = pre @ post)
   \<and> (b \<notin> set cmds \<longrightarrow> removeTagSection cmds b e = cmds)
   \<and> (\<forall>pre rest. cmds = pre @ b # rest \<and> b \<notin> set pre \<and> e \<notin> set rest
        \<longrightarrow> removeTagSection cmds b e = cmds)
   \<and> sectionPresent cmds b e
        = (\<exists>pre mid post. cmds = pre @ b # mid @ e # post \<and> b \<notin> set pre \<and> e \<notin> set mid)
   \<and> (\<forall>roles. taskRoles d = Some roles
          \<and> (\<forall>(roleName, role) \<in> set roles.
                \<forall>cs. commands role = Some cs \<longrightarrow> \<not> generatedSectionPresent c cs)
        \<longrightarrow> (\<exists>d' roles'. removeAutoGeneratedCodeFromProtocolTaskRoles c d = Inr d'
               \<and> taskRoles d' = Some roles'
               \<and> map (\<lambda>(roleName, role). (roleName, commands role)) roles'
                   = map (\<lambda>(roleName, role). (roleName, commands role)) roles))"
proof (intro conjI allI impI)
  fix pre mid post
  assume "cmds = pre @ b # mid @ e # post \<and> b \<notin> set pre \<and> e \<notin> set mid"
  then show "removeTagSection cmds b e = pre @ post"
    by (simp add: removeTagSection_split)
next
  assume "b \<notin> set cmds"
  then show "removeTagSection cmds b e = cmds" by (rule removeTagSection_no_begin)
next
  fix pre rest
  assume "cmds = pre @ b # rest \<and> b \<notin> set pre \<and> e \<notin> set rest"
  then show "removeTagSection cmds b e = cmds"
    using removeTagSection_no_end[of cmds pre b rest e] by simp
next
  show "sectionPresent cmds b e
        = (\<exists>pre mid post. cmds = pre @ b # mid @ e # post \<and> b \<notin> set pre \<and> e \<notin> set mid)"
    by (rule sectionPresent_iff)
next
  fix roles
  assume "taskRoles d = Some roles
          \<and> (\<forall>(roleName, role) \<in> set roles.
                \<forall>cs. commands role = Some cs \<longrightarrow> \<not> generatedSectionPresent c cs)"
  then show "\<exists>d' roles'. removeAutoGeneratedCodeFromProtocolTaskRoles c d = Inr d'
               \<and> taskRoles d' = Some roles'
               \<and> map (\<lambda>(roleName, role). (roleName, commands role)) roles'
                   = map (\<lambda>(roleName, role). (roleName, commands role)) roles"
    by (intro strip_commands_unchanged) simp_all
qed

theorem removeTagSection_only_well_formed_witness:
  "removeTagSection [''echo a'', ''#B'', ''x'', ''#E'', ''echo b''] ''#B'' ''#E'' = [''echo a'', ''echo b'']
   \<and> removeTagSection [''echo a'', ''#E'', ''x''] ''#B'' ''#E'' = [''echo a'', ''#E'', ''x'']
   \<and> removeTagSection [''#E'', ''#B'', ''x''] ''#B'' ''#E'' = [''#E'', ''#B'', ''x'']
   \<and> sectionPresent [''echo a'', ''#B'', ''x'', ''#E'', ''echo b''] ''#B'' ''#E''
   \<and> map (\<lambda>(roleName, role). (roleName, commands role))
         (the (taskRoles (projr (removeAutoGeneratedCodeFromProtocolTaskRoles exampleConstants exampleJob))))
       = [(''worker'', Some [''python train.py'']), (''ps'', None)]"
proof (intro conjI)
  show "removeTagSection [''echo a'', ''#B'', ''x'', ''#E'', ''echo b''] ''#B'' ''#E'' = [''echo a'', ''echo b'']"
    using removeTagSection_only_well_formed
            [of "[''echo a'', ''#B'', ''x'', ''#E'', ''echo b'']" "''#B''" "''#E''" exampleJob exampleConstants,
             THEN conjunct1, rule_format, of "[''echo a'']" "[''x'']" "[''echo b'']"]
    by simp
  show "removeTagSection [''echo a'', ''#E'', ''x''] ''#B'' ''#E'' = [''echo a'', ''#E'', ''x'']"
    using removeTagSection_only_well_formed
            [of "[''echo a'', ''#E'', ''x'']" "''#B''" "''#E''" exampleJob exampleConstants,
             THEN conjunct2, THEN conjunct1]
    by simp
  show "removeTagSection [''#E'', ''#B'', ''x''] ''#B'' ''#E'' = [''#E'', ''#B'', ''x'']"
    using removeTagSection_only_well_formed
            [of "[''#E'', ''#B'', ''x'']" "''#B''" "''#E''" exampleJob exampleConstants,
             THEN conjunct2, THEN conjunct2, THEN conjunct1, rule_format, of "[''#E'']" "[''x'']"]
    by simp
  show "sectionPresent [''echo a'', ''#B'', ''x'', ''#E'', ''echo b''] ''#B'' ''#E''"
    by (simp add: sectionPresent_def)
  have r: "taskRoles exampleJob = Some
        [(''worker'', \<lparr>commands = Some [''python train.py''],
                       resourcePerInstance = \<lparr>ports = Some [(''ssh'', 1)]\<rparr>\<rparr>),
         (''ps'', \<lparr>commands = None, resourcePerInstance = \<lparr>ports = None\<rparr>\<rparr>)]"
    by (simp add: exampleJob_def)
  show "map (\<lambda>(roleName, role). (roleName, commands role))
         (the (taskRoles (projr (removeAutoGeneratedCodeFromProtocolTaskRoles exampleConstants exampleJob))))
       = [(''worker'', Some [''python train.py'']), (''ps'', None)]"
    using removeTagSection_only_well_formed
            [of "[]" "''#B''" "''#E''" exampleJob exampleConstants,
             THEN conjunct2, THEN conjunct2, THEN conjunct2, THEN conjunct2, rule_format,
             of "[(''worker'', \<lparr>commands = Some [''python train.py''],
                       resourcePerInstance = \<lparr>ports = Some [(''ssh'', 1)]\<rparr>\<rparr>),
                  (''ps'', \<lparr>commands = None, resourcePerInstance = \<lparr>ports = None\<rparr>\<rparr>)]"]
          r
    by (auto simp: example_defs)
qed

subsection \<open>C4: what the injection does\<close>

text \<open>
  Claim C4 says that the block goes to the first task role in insertion order. It goes
  to the first key \<open>Object.keys\<close> enumerates, and that is another role when a role
  name is an array index: in \<open>numericRoleJob\<close> the role \<open>worker\<close> was added first and
  the role \<open>1\<close> second, \<open>Object.keys\<close> enumerates \<open>1\<close> first, and the block and
  the port go to the role \<open>1\<close>, while \<open>worker\<close> stays as it was.
\<close>

theorem addTensorBoardCommands_insertion_order_counterexample:
  "ownKeysOrder
     [(''worker'', \<lparr>commands = Some [''python train.py''],
                    resourcePerInstance = \<lparr>ports = Some []\<rparr>\<rparr>),
      (''1'', \<lparr>commands = Some [''python ps.py''],
               resourcePerInstance = \<lparr>ports = Some []\<rparr>\<rparr>)]
     = [(''1'', \<lparr>commands = Some [''python ps.py''],
                 resourcePerInstance = \<lparr>ports = Some []\<rparr>\<rparr>),
        (''worker'', \<lparr>commands = Some [''python train.py''],
                      resourcePerInstance = \<lparr>ports = Some []\<rparr>\<rparr>)]
   \<and> addTensorBoardCommandsToProtocolTaskRoles exampleConstants numericRoleJob
     = Inr (numericRoleJob\<lparr>taskRoles := Some
              [(''1'',
                \<lparr>commands = Some [''#TENSORBOARD_CMD_START'',
                                   ''#Auto generated code, please do not modify'',
                                   ''(tensorboard --logdir=default:/mnt/tensorboard --port=$PAI_CONTAINER_HOST_tensorBoardPort_k3x9q2ab_PORT_LIST &)'',
                                   ''#TENSORBOARD_CMD_END'',
                                   ''python ps.py''],
                 resourcePerInstance = \<lparr>ports = Some [(''tensorBoardPort_k3x9q2ab'', 1)]\<rparr>\<rparr>),
               (''worker'', \<lparr>commands = Some [''python train.py''],
                             resourcePerInstance = \<lparr>ports = Some []\<rparr>\<rparr>)]\<rparr>)"
proof
  show o: "ownKeysOrder
     [(''worker'', \<lparr>commands = Some [''python train.py''],
                    resourcePerInstance = \<lparr>ports = Some []\<rparr>\<rparr>),
      (''1'', \<lparr>commands = Some [''python ps.py''],
               resourcePerInstance = \<lparr>ports = Some []\<rparr>\<rparr>)]
     = [(''1'', \<lparr>commands = Some [''python ps.py''],
                 resourcePerInstance = \<lparr>ports = Some []\<rparr>\<rparr>),
        (''worker'', \<lparr>commands = Some [''python train.py''],
                      resourcePerInstance = \<lparr>ports = Some []\<rparr>\<rparr>)]"
    by (simp add: ownKeysOrder_def example_keys)
  show "addTensorBoardCommandsToProtocolTaskRoles exampleConstants numericRoleJob
     = Inr (numericRoleJob\<lparr>taskRoles := Some
              [(''1'',
                \<lparr>commands = Some [''#TENSORBOARD_CMD_START'',
                                   ''#Auto generated code, please do not modify'',
                                   ''(tensorboard --logdir=default:/mnt/tensorboard --port=$PAI_CONTAINER_HOST_tensorBoardPort_k3x9q2ab_PORT_LIST &)'',
                                   ''#TENSORBOARD_CMD_END'',
                                   ''python ps.py''],
                 resourcePerInstance = \<lparr>ports = Some [(''tensorBoardPort_k3x9q2ab'', 1)]\<rparr>\<rparr>),
               (''worker'', \<lparr>commands = Some [''python train.py''],
                             resourcePerInstance = \<lparr>ports = Some []\<rparr>\<rparr>)]\<rparr>)"
    by (simp add: numericRoleJob_def o addTensorBoardCommandsToProtocolTaskRoles_def
          injectTensorBoard_def tensorBoardCommands_def tensorBoardPortName_def
          exampleTensorBoard_def exampleConstants_def Let_def)
qed

text \<open>
  Claim C4, amended. On a document with a TensorBoard extras record and a non-empty
  mapping of task roles the injection returns the document with one role changed and
  nothing else: the first role in \<open>Object.keys\<close> order, which is the first role in
  insertion order when no role name is an array index. Its command list is the block of
  four lines (begin sentinel, notice, the launch command, end sentinel) followed by the
  commands it had; the launch command holds the \<open>key:path\<close> pairs of
  \<open>logDirectories\<close> in their order, each but the first preceded by a comma, and the
  port identifier made from \<open>randomStr\<close>. Its port map has the port identifier set to
  1 and every other key as before.
\<close>

theorem addTensorBoardCommands_first_role:
  assumes "taskRoles d = Some (ownKeysOrder inserted)"
    and "ownKeysOrder inserted = (firstTaskRole, role) # others"
    and "extras d = Some e" and "tensorBoard e = Some tb"
  shows "\<exists>role' ps.
       addTensorBoardCommandsToProtocolTaskRoles c d
         = Inr (d\<lparr>taskRoles := Some ((firstTaskRole, role') # others)\<rparr>)
     \<and> commands role'
         = Some ([TENSORBOARD_CMD_START c,
                  AUTO_GENERATE_NOTIFY c,
                  ''(tensorboard --logdir=''
                    @ concat (map (\<lambda>(i, key, path). (if i = 0 then [] else '','') @ key @ '':'' @ path)
                                  (enumerate 0 (logDirectories tb)))
                    @ '' --port=$PAI_CONTAINER_HOST_tensorBoardPort_'' @ randomStr tb @ ''_PORT_LIST &)'',
                  TENSORBOARD_CMD_END c]
                 @ (case commands role of Some cs \<Rightarrow> cs | None \<Rightarrow> []))
     \<and> ports (resourcePerInstance role') = Some ps
     \<and> ps = AList.update (''tensorBoardPort_'' @ randomStr tb) 1
               (case ports (resourcePerInstance role) of Some ps0 \<Rightarrow> ps0 | None \<Rightarrow> [])
     \<and> map_of ps
         = (map_of (case ports (resourcePerInstance role) of Some ps0 \<Rightarrow> ps0 | None \<Rightarrow> []))
             (''tensorBoardPort_'' @ randomStr tb \<mapsto> 1)
     \<and> (list_all (\<lambda>(k, r). \<not> isArrayIndex k) inserted
          \<longrightarrow> inserted = (firstTaskRole, role) # others)"
proof (intro exI[of _ "injectTensorBoard c tb role"]
             exI[of _ "AList.update (''tensorBoardPort_'' @ randomStr tb) 1
                         (case ports (resourcePerInstance role) of Some ps0 \<Rightarrow> ps0 | None \<Rightarrow> [])"]
             conjI impI)
  show "addTensorBoardCommandsToProtocolTaskRoles c d
          = Inr (d\<lparr>taskRoles := Some ((firstTaskRole, injectTensorBoard c tb role) # others)\<rparr>)"
    using assms by (simp add: addTensorBoardCommandsToProtocolTaskRoles_def)
  have "enumerate 0 (map (\<lambda>(key, dir). key @ '':'' @ dir) (logDirectories tb))
          = map (\<lambda>(i, key, dir). (i, key @ '':'' @ dir)) (enumerate 0 (logDirectories tb))"
    by (simp add: enumerate_eq_zip zip_map2 case_prod_unfold)
  then have "join '','' (map (\<lambda>(key, dir). key @ '':'' @ dir) (logDirectories tb))
          = concat (map (\<lambda>(i, key, path). (if i = 0 then [] else '','') @ key @ '':'' @ path)
                        (enumerate 0 (logDirectories tb)))"
    by (simp add: join_commas case_prod_unfold comp_def)
  then show "commands (injectTensorBoard c tb role)
         = Some ([TENSORBOARD_CMD_START c,
                  AUTO_GENERATE_NOTIFY c,
                  ''(tensorboard --logdir=''
                    @ concat (map (\<lambda>(i, key, path). (if i = 0 then [] else '','') @ key @ '':'' @ path)
                                  (enumerate 0 (logDirectories tb)))
                    @ '' --port=$PAI_CONTAINER_HOST_tensorBoardPort_'' @ randomStr tb @ ''_PORT_LIST &)'',
                  TENSORBOARD_CMD_END c]
                 @ (case commands role of Some cs \<Rightarrow> cs | None \<Rightarrow> []))"
    by (simp add: injectTensorBoard_def tensorBoardCommands_def tensorBoardPortName_def Let_def)
  show "ports (resourcePerInstance (injectTensorBoard c tb role))
          = Some (AList.update (''tensorBoardPort_'' @ randomStr tb) 1
                    (case ports (resourcePerInstance role) of Some ps0 \<Rightarrow> ps0 | None \<Rightarrow> []))"
    by (simp add: injectTensorBoard_def tensorBoardPortName_def Let_def)
  show "map_of (AList.update (''tensorBoardPort_'' @ randomStr tb) 1
                  (case ports (resourcePerInstance role) of Some ps0 \<Rightarrow> ps0 | None \<Rightarrow> []))
         = (map_of (case ports (resourcePerInstance role) of Some ps0 \<Rightarrow> ps0 | None \<Rightarrow> []))
             (''tensorBoardPort_'' @ randomStr tb \<mapsto> 1)"
    by (rule update_conv')
  assume "list_all (\<lambda>(k, r). \<not> isArrayIndex k) inserted"
  then show "inserted = (firstTaskRole, role) # others"
    using assms(2) by (simp add: ownKeysOrder_no_index)
qed simp

theorem addTensorBoardCommands_first_role_witness:
  "addTensorBoardCommandsToProtocolTaskRoles exampleConstants twoLogsJob
     = Inr (twoLogsJob\<lparr>taskRoles := Some
              [(''worker'',
                \<lparr>commands = Some [''#TENSORBOARD_CMD_START'',
                                   ''#Auto generated code, please do not modify'',
                                   ''(tensorboard --logdir=default:/mnt/tensorboard,extra:/mnt/extra --port=$PAI_CONTAINER_HOST_tensorBoardPort_k3x9q2ab_PORT_LIST &)'',
                                   ''#TENSORBOARD_CMD_END'',
                                   ''python train.py''],
                 resourcePerInstance = \<lparr>ports = Some [(''ssh'', 1), (''tensorBoardPort_k3x9q2ab'', 1)]\<rparr>\<rparr>),
               (''ps'', \<lparr>commands = None, resourcePerInstance = \<lparr>ports = None\<rparr>\<rparr>)]\<rparr>)"
proof -
  let ?role = "\<lparr>commands = Some [''python train.py''],
                resourcePerInstance = \<lparr>ports = Some [(''ssh'', 1)]\<rparr>\<rparr>"
  let ?others = "[(''ps'', \<lparr>commands = None, resourcePerInstance = \<lparr>ports = None\<rparr>\<rparr>)]"
  let ?tb = "\<lparr>randomStr = ''k3x9q2ab'',
             logDirectories = [(''default'', ''/mnt/tensorboard''), (''extra'', ''/mnt/extra'')]\<rparr>"
  have order: "ownKeysOrder ((''worker'', ?role) # ?others) = (''worker'', ?role) # ?others"
    by (rule ownKeysOrder_no_index) (simp add: example_keys)
  have roles: "taskRoles twoLogsJob = Some (ownKeysOrder ((''worker'', ?role) # ?others))"
    by (simp add: twoLogsJob_def)
  have ex: "extras twoLogsJob = Some \<lparr>tensorBoard = Some ?tb\<rparr>"
    by (simp add: twoLogsJob_def)
  obtain role' ps where r:
    "addTensorBoardCommandsToProtocolTaskRoles exampleConstants twoLogsJob
       = Inr (twoLogsJob\<lparr>taskRoles := Some ((''worker'', role') # ?others)\<rparr>)"
    "commands role'
       = Some ([TENSORBOARD_CMD_START exampleConstants,
                AUTO_GENERATE_NOTIFY exampleConstants,
                ''(tensorboard --logdir=''
                  @ concat (map (\<lambda>(i, key, path). (if i = 0 then [] else '','') @ key @ '':'' @ path)
                                (enumerate 0 (logDirectories ?tb)))
                  @ '' --port=$PAI_CONTAINER_HOST_tensorBoardPort_'' @ randomStr ?tb
                  @ ''_PORT_LIST &)'',
                TENSORBOARD_CMD_END exampleConstants]
               @ (case commands ?role of Some cs \<Rightarrow> cs | None \<Rightarrow> []))"
    "ports (resourcePerInstance role') = Some ps"
    "ps = AList.update (''tensorBoardPort_'' @ randomStr ?tb) 1
            (case ports (resourcePerInstance ?role) of Some ps0 \<Rightarrow> ps0 | None \<Rightarrow> [])"
    using addTensorBoardCommands_first_role[OF roles order ex, of ?tb exampleConstants]
    by auto
  have "role' = \<lparr>commands = commands role',
                 resourcePerInstance = \<lparr>ports = ports (resourcePerInstance role')\<rparr>\<rparr>"
    by simp
  with r(2-4) have "role' = \<lparr>commands = Some [''#TENSORBOARD_CMD_START'',
                                   ''#Auto generated code, please do not modify'',
                                   ''(tensorboard --logdir=default:/mnt/tensorboard,extra:/mnt/extra --port=$PAI_CONTAINER_HOST_tensorBoardPort_k3x9q2ab_PORT_LIST &)'',
                                   ''#TENSORBOARD_CMD_END'',
                                   ''python train.py''],
                 resourcePerInstance = \<lparr>ports = Some [(''ssh'', 1), (''tensorBoardPort_k3x9q2ab'', 1)]\<rparr>\<rparr>"
    by (simp add: exampleConstants_def)
  with r(1) show ?thesis by simp
qed

subsection \<open>C5: redacted secrets\<close>

text \<open>
  Claim C5 holds of every document that has a \<open>taskRoles\<close> mapping (see
  \<open>getJobComponentsFromConfig_secrets\<close>). The function reads \<open>taskRoles\<close> behind a
  guard, \<open>jobConfig.taskRoles || []\<close>, but only after the strip pass, which enumerates
  the field without one. On \<open>redactedJobWithoutRoles\<close>, a document with redacted
  secrets and no \<open>taskRoles\<close>, the call ends with a \<open>TypeError\<close>: nothing is
  returned and no warning is shown.
\<close>

theorem getJobComponentsFromConfig_redacted_without_taskRoles:
  "getJobComponentsFromConfig exampleConstants
     (\<lambda>d. \<lparr>virtualCluster = ''vc1''\<rparr>) (\<lambda>roleName role ds ps s. roleName)
     (Some redactedJobWithoutRoles) \<lparr>vcNames = [''vc1'']\<rparr>
     = \<lparr>documentAfter = Some redactedJobWithoutRoles, returned = None, alerts = [],
        thrown = Some TypeError\<rparr>
   \<and> secrets redactedJobWithoutRoles = Some (SecretsString HIDE_SECRET)"
  by (simp add: getJobComponentsFromConfig_def removeAutoGeneratedCodeFromProtocolTaskRoles_def
        redactedJobWithoutRoles_def HIDE_SECRET_def)

subsection \<open>C6: createUniqueName\<close>

text \<open>
  Claim C6 says that for every integer start the function ends and returns the next
  index \<open>N + 1\<close>. The index of the source is a double. At \<open>2^53\<close> the increment
  leaves it where it is (\<open>2^53 + 1\<close> rounds to \<open>2^53\<close>): started there with the
  candidate free, the function returns \<open>2^53\<close> itself as the next index; started there
  with the candidate in use, it builds the same candidate for ever.
\<close>

theorem createUniqueName_counterexample:
  "createUniqueName (\<lambda>n. []) [] ''task'' 9007199254740992
     = Some (''task_9007199254740992'', 9007199254740992)
   \<and> createUniqueName (\<lambda>n. []) [''task_9007199254740992''] ''task'' 9007199254740992 = None"
proof
  have cand: "uniqueNameCandidate (\<lambda>n. []) ''task'' 9007199254740992 = ''task_9007199254740992''"
    by (simp add: uniqueNameCandidate_safe decimal_two_53)
  show "createUniqueName (\<lambda>n. []) [] ''task'' 9007199254740992
          = Some (''task_9007199254740992'', 9007199254740992)"
    by (simp add: createUniqueName_def createUniqueNameFrom.simps[of _ _ _ 9007199254740992]
          cand jsIncrement_stuck)
  show "createUniqueName (\<lambda>n. []) [''task_9007199254740992''] ''task'' 9007199254740992 = None"
    unfolding createUniqueName_def
    by (rule createUniqueNameFrom_stuck) (simp_all add: jsIncrement_stuck cand)
qed

text \<open>
  Claim C6, amended. For every list of used names, prefix and integer start from
  \<open>-2^53\<close> on with \<open>start + length usedNames < 2^53\<close>, the function ends and returns
  the candidate \<open>prefix_N\<close> for the least \<open>N\<close> from the start on that is not in use,
  together with \<open>N + 1\<close>.
\<close>

theorem createUniqueName_smallest_free:
  assumes "- 9007199254740992 \<le> startindex"
    and "startindex + int (length usedNames) < 9007199254740992"
  shows "\<exists>N. startindex \<le> N
     \<and> createUniqueName beyondSafe usedNames namePrefix startindex
         = Some (namePrefix @ ''_'' @ decimal_of_int N, N + 1)
     \<and> namePrefix @ ''_'' @ decimal_of_int N \<notin> set usedNames
     \<and> (\<forall>j. startindex \<le> j \<and> j < N \<longrightarrow> namePrefix @ ''_'' @ decimal_of_int j \<in> set usedNames)"
proof -
  have "startindex + int (card {j. startindex \<le> j \<and> j < 9007199254740992
            \<and> namePrefix @ ''_'' @ decimal_of_int j \<in> set usedNames}) < 9007199254740992"
    using used_candidates_card[of startindex namePrefix usedNames] assms(2) by linarith
  from createUniqueNameFrom_safe[OF refl assms(1) this]
  show ?thesis by (simp add: createUniqueName_def)
qed

theorem createUniqueName_smallest_free_witness:
  "createUniqueName (\<lambda>n. []) [''task_0'', ''task_1'', ''job_2''] ''task'' 0 = Some (''task_2'', 3)"
proof -
  let ?used = "[''task_0'', ''task_1'', ''job_2'']"
  have c0: "''task'' @ ''_'' @ decimal_of_int 0 = ''task_0''" by (simp add: decimal_small)
  have c1: "''task'' @ ''_'' @ decimal_of_int 1 = ''task_1''" by (simp add: decimal_small)
  have c2: "''task'' @ ''_'' @ decimal_of_int 2 = ''task_2''" by (simp add: decimal_small)
  obtain N where N: "0 \<le> N"
    "createUniqueName (\<lambda>n. []) ?used ''task'' 0 = Some (''task'' @ ''_'' @ decimal_of_int N, N + 1)"
    "''task'' @ ''_'' @ decimal_of_int N \<notin> set ?used"
    "\<forall>j. 0 \<le> j \<and> j < N \<longrightarrow> ''task'' @ ''_'' @ decimal_of_int j \<in> set ?used"
    using createUniqueName_smallest_free[of 0 ?used "\<lambda>n. []" "''task''"] by auto
  have "N \<noteq> 0" using N(3) c0 by auto
  moreover have "N \<noteq> 1" using N(3) c1 by auto
  moreover have "\<not> 2 < N"
  proof
    assume "2 < N"
    with N(4) have "''task'' @ ''_'' @ decimal_of_int 2 \<in> set ?used" by simp
    then show False unfolding c2 by simp
  qed
  ultimately have "N = 2" using N(1) by linarith
  with N(2) c2 show ?thesis by simp
qed

subsection \<open>C7: removeEmptyProperties\<close>

text \<open>
  Claim C7. On an object the function keeps the keys in their order and drops exactly
  those whose value is empty-like and not a non-container, non-nil primitive: null,
  undefined, the empty array, the empty object and the empty string (a string is
  array-like, hence a container). Every number, every boolean and every non-empty
  string, array and object stays. On \<open>{a: [], b: null, c: 0, d: "x", e: {}}\<close> the
  result is \<open>{c: 0, d: "x"}\<close>.
\<close>

theorem removeEmptyProperties_drops_empty_like:
  "removeEmptyProperties (JObject kvs) = JObject (filter (\<lambda>(k, v). \<not> dropsKey v) kvs)
   \<and> dropsKey v = (v = JNull \<or> v = JUndefined \<or> v = JArray [] \<or> v = JObject [] \<or> v = JString [])
   \<and> removeEmptyProperties
         (JObject [(''a'', JArray []), (''b'', JNull), (''c'', JNumber 0),
                   (''d'', JString ''x''), (''e'', JObject [])])
       = JObject [(''c'', JNumber 0), (''d'', JString ''x'')]"
proof (intro conjI)
  show "removeEmptyProperties (JObject kvs) = JObject (filter (\<lambda>(k, v). \<not> dropsKey v) kvs)"
    by (simp add: removeEmptyProperties_def keepsProperty_iff case_prod_unfold)
  show "dropsKey v = (v = JNull \<or> v = JUndefined \<or> v = JArray [] \<or> v = JObject [] \<or> v = JString [])"
    by (cases v) (auto simp: dropsKey_def emptyLike_def emptyContainer_def)
  show "removeEmptyProperties
         (JObject [(''a'', JArray []), (''b'', JNull), (''c'', JNumber 0),
                   (''d'', JString ''x''), (''e'', JObject [])])
       = JObject [(''c'', JNumber 0), (''d'', JString ''x'')]"
    by (simp add: removeEmptyProperties_def keepsProperty_def isNil_def)
qed

subsection \<open>C8: the virtual cluster of the job information\<close>

text \<open>
  Claim C8. A call on a document with task roles returns its components. Whenever
  components are returned, the virtual cluster of the job information among them is
  \<open>default\<close> when the context knows no virtual cluster or not the one the constructor
  recorded from the document, and the recorded one otherwise. The other fields of the job
  information are as the constructor made them.
\<close>

theorem getJobComponentsFromConfig_virtualCluster:
  "(taskRoles d \<noteq> None \<longrightarrow>
      returned (getJobComponentsFromConfig c basicInfo taskRole (Some d) ctx) \<noteq> None)
   \<and> (\<forall>r. returned (getJobComponentsFromConfig c basicInfo taskRole (Some d) ctx) = Some r \<longrightarrow>
        (\<exists>d'. removeAutoGeneratedCodeFromProtocolTaskRoles c d = Inr d'
           \<and> virtualCluster (updatedJobInformation r)
               = (let recorded = virtualCluster (basicInfo d')
                  in if vcNames ctx = [] \<or> recorded \<notin> set (vcNames ctx) then ''default'' else recorded)
           \<and> JobBasicInfo.more (updatedJobInformation r) = JobBasicInfo.more (basicInfo d')))"
proof (intro conjI allI impI)
  assume "taskRoles d \<noteq> None"
  then show "returned (getJobComponentsFromConfig c basicInfo taskRole (Some d) ctx) \<noteq> None"
    using decompose_returned_iff[of c basicInfo taskRole d ctx] by blast
next
  fix r
  assume r: "returned (getJobComponentsFromConfig c basicInfo taskRole (Some d) ctx) = Some r"
  then have "taskRoles d \<noteq> None"
    using decompose_returned_iff[of c basicInfo taskRole d ctx] by simp
  then obtain roles where "taskRoles d = Some roles" by blast
  then obtain d' where d': "removeAutoGeneratedCodeFromProtocolTaskRoles c d = Inr d'"
    using strip_returns by blast
  from decompose_returns(3)[OF d', of basicInfo taskRole ctx] r
  have "updatedJobInformation r = populateComponents (basicInfo d') ctx" by simp
  then show "\<exists>d'. removeAutoGeneratedCodeFromProtocolTaskRoles c d = Inr d'
           \<and> virtualCluster (updatedJobInformation r)
               = (let recorded = virtualCluster (basicInfo d')
                  in if vcNames ctx = [] \<or> recorded \<notin> set (vcNames ctx) then ''default'' else recorded)
           \<and> JobBasicInfo.more (updatedJobInformation r) = JobBasicInfo.more (basicInfo d')"
    using d' by (intro exI[of _ d']) (simp add: populateComponents_def Let_def find_eq_None_iff)
qed

theorem getJobComponentsFromConfig_virtualCluster_witness:
  "virtualCluster (updatedJobInformation (the (returned
      (getJobComponentsFromConfig exampleConstants
         (\<lambda>d. \<lparr>virtualCluster = ''vc9''\<rparr>) (\<lambda>roleName role ds ps s. roleName)
         (Some exampleJob) \<lparr>vcNames = [''vc1'', ''vc2'']\<rparr>)))) = ''default''
   \<and> virtualCluster (updatedJobInformation (the (returned
      (getJobComponentsFromConfig exampleConstants
         (\<lambda>d. \<lparr>virtualCluster = ''vc2''\<rparr>) (\<lambda>roleName role ds ps s. roleName)
         (Some exampleJob) \<lparr>vcNames = [''vc1'', ''vc2'']\<rparr>)))) = ''vc2''
   \<and> virtualCluster (updatedJobInformation (the (returned
      (getJobComponentsFromConfig exampleConstants
         (\<lambda>d. \<lparr>virtualCluster = ''vc2''\<rparr>) (\<lambda>roleName role ds ps s. roleName)
         (Some exampleJob) \<lparr>vcNames = []\<rparr>)))) = ''default''"
proof -
  have roles: "taskRoles exampleJob \<noteq> None" by (simp add: exampleJob_def)
  show ?thesis
    using getJobComponentsFromConfig_virtualCluster
            [of exampleJob exampleConstants "\<lambda>d. \<lparr>virtualCluster = ''vc9''\<rparr>"
                "\<lambda>roleName role ds ps s. roleName" "\<lparr>vcNames = [''vc1'', ''vc2'']\<rparr>"]
          getJobComponentsFromConfig_virtualCluster
            [of exampleJob exampleConstants "\<lambda>d. \<lparr>virtualCluster = ''vc2''\<rparr>"
                "\<lambda>roleName role ds ps s. roleName" "\<lparr>vcNames = [''vc1'', ''vc2'']\<rparr>"]
          getJobComponentsFromConfig_virtualCluster
            [of exampleJob exampleConstants "\<lambda>d. \<lparr>virtualCluster = ''vc2''\<rparr>"
                "\<lambda>roleName role ds ps s. roleName" "\<lparr>vcNames = []\<rparr>"]
          roles
    by auto
qed

subsection \<open>C9: no document\<close>

text \<open>
  Claim C9. On a null or undefined document the function returns \<open>undefined\<close>, shows
  nothing, raises nothing and touches nothing; no step of it runs.
\<close>

theorem getJobComponentsFromConfig_absent:
  "getJobComponentsFromConfig c basicInfo taskRole None ctx
     = \<lparr>documentAfter = None, returned = None, alerts = [], thrown = None\<rparr>"
  by (simp add: getJobComponentsFromConfig_def)

subsection \<open>C10: removePathPrefix\<close>

text \<open>
  Claim C10. When the prefix does not occur in the path, the path is returned as it is.
  When it occurs, its first occurrence is deleted, wherever that is: for every way
  \<open>u @ pre @ v\<close> of writing the path in which no occurrence starts before the end of
  \<open>u\<close>, the result is \<open>u @ v\<close>.
\<close>

theorem removePathPrefix_first_occurrence:
  "((\<forall>u v. path \<noteq> u @ pre @ v) \<longrightarrow> removePathPrefix path pre = path)
   \<and> (\<forall>u v. path = u @ pre @ v \<and> (\<forall>u' v'. path = u' @ pre @ v' \<longrightarrow> length u \<le> length u')
         \<longrightarrow> removePathPrefix path pre = u @ v)"
proof (intro conjI allI impI)
  assume "\<forall>u v. path \<noteq> u @ pre @ v"
  then show "removePathPrefix path pre = path"
    by (simp add: removePathPrefix_def stringReplace_def stringIndexOf_none)
next
  fix u v
  assume a: "path = u @ pre @ v \<and> (\<forall>u' v'. path = u' @ pre @ v' \<longrightarrow> length u \<le> length u')"
  then have "stringIndexOf path pre = Some (length u)"
    by (intro stringIndexOf_first[of path u pre v]) simp_all
  with a show "removePathPrefix path pre = u @ v"
    by (simp add: removePathPrefix_def stringReplace_def)
qed

theorem removePathPrefix_first_occurrence_witness:
  "removePathPrefix ''/a/b/c'' ''/b'' = ''/a/c''
   \<and> removePathPrefix ''/a/b/c'' ''x'' = ''/a/b/c''
   \<and> removePathPrefix ''/a/b/c'' ''/a/'' = ''b/c''
   \<and> removePathPrefix ''ab/ab'' ''ab'' = ''/ab''"
proof (intro conjI)
  have "\<forall>j<length ''/a''. take (length ''/b'') (drop j ''/a/b/c'') \<noteq> ''/b''"
    by (simp add: less_Suc_eq)
  then have "\<forall>u' v'. ''/a/b/c'' = u' @ ''/b'' @ v' \<longrightarrow> length ''/a'' \<le> length u'"
    by (rule no_earlier_match)
  then show "removePathPrefix ''/a/b/c'' ''/b'' = ''/a/c''"
    using removePathPrefix_first_occurrence[of "''/a/b/c''" "''/b''", THEN conjunct2, rule_format, of "''/a''" "''/c''"]
    by simp
  have "\<forall>u v. ''/a/b/c'' \<noteq> u @ ''x'' @ v"
    by (rule no_match_by_char) simp
  then show "removePathPrefix ''/a/b/c'' ''x'' = ''/a/b/c''"
    using removePathPrefix_first_occurrence[of "''/a/b/c''" "''x''", THEN conjunct1] by blast
  show "removePathPrefix ''/a/b/c'' ''/a/'' = ''b/c''"
    using removePathPrefix_first_occurrence[of "''/a/b/c''" "''/a/''", THEN conjunct2, rule_format, of "[]" "''b/c''"]
    by simp
  show "removePathPrefix ''ab/ab'' ''ab'' = ''/ab''"
    using removePathPrefix_first_occurrence[of "''ab/ab''" "''ab''", THEN conjunct2, rule_format, of "[]" "''/ab''"]
    by simp
qed

end
